theory Spec2Isabelle
  imports Main
begin

section \<open>Naming helpers of generator.js\<close>

text \<open>
  Identifiers are JavaScript strings. They are modelled as \<open>string\<close>, a list of code
  units below 256 (ASCII and the Latin-1 supplement), on which \<open>toLowerCase\<close> and
  \<open>toUpperCase\<close> act unit by unit. The regular expressions of the helpers carry no
  \<open>u\<close> or \<open>i\<close> flag, so \<open>\w\<close> is \<open>[A-Za-z0-9_]\<close> and \<open>[A-Z]\<close> is the ASCII range.
\<close>

datatype js_error = TypeError | SyntaxError

definition is_upper :: "char \<Rightarrow> bool" where
  \<comment> \<open>the character class \<open>[A-Z]\<close>\<close>
  "is_upper c \<longleftrightarrow> 65 \<le> (of_char c :: nat) \<and> (of_char c :: nat) \<le> 90"

definition is_lower :: "char \<Rightarrow> bool" where
  \<comment> \<open>the character class \<open>[a-z]\<close>\<close>
  "is_lower c \<longleftrightarrow> 97 \<le> (of_char c :: nat) \<and> (of_char c :: nat) \<le> 122"

definition is_digit :: "char \<Rightarrow> bool" where
  \<comment> \<open>the character class \<open>[0-9]\<close>\<close>
  "is_digit c \<longleftrightarrow> 48 \<le> (of_char c :: nat) \<and> (of_char c :: nat) \<le> 57"

definition is_word :: "char \<Rightarrow> bool" where
  \<comment> \<open>the character class \<open>\w\<close>\<close>
  "is_word c \<longleftrightarrow> is_upper c \<or> is_lower c \<or> is_digit c \<or> c = CHR ''_''"

definition toUpperCase_word :: "char \<Rightarrow> char" where
  \<comment> \<open>\<open>toUpperCase\<close> on a one-character string matched by \<open>\w\<close>\<close>
  "toUpperCase_word c = (if is_lower c then char_of ((of_char c :: nat) - 32) else c)"

definition lower_unit :: "char \<Rightarrow> char" where
  \<comment> \<open>\<open>toLowerCase\<close> on one code unit below 256: \<open>A-Z\<close>, and \<open>U+00C0..U+00DE\<close>
      without the multiplication sign \<open>U+00D7\<close>\<close>
  "lower_unit c =
     (let n = (of_char c :: nat)
      in if (65 \<le> n \<and> n \<le> 90) \<or> (192 \<le> n \<and> n \<le> 222 \<and> n \<noteq> 215)
         then char_of (n + 32) else c)"

definition toLowerCase :: "string \<Rightarrow> string" where
  "toLowerCase s = map lower_unit s"

text \<open>
  \<open>s.replace(/(^\w|-\w)/g, c => c.replace('-', '').toUpperCase())\<close>: the scan goes
  left to right; \<open>^\w\<close> can match at index 0 only, \<open>-\w\<close> anywhere, and a match
  consumes its characters. \<open>pascal_scan\<close> is the scan from an index after 0.
\<close>

fun pascal_scan :: "string \<Rightarrow> string" where
  "pascal_scan [] = []"
| "pascal_scan [c] = [c]"
| "pascal_scan (c # d # cs) =
     (if c = CHR ''-'' \<and> is_word d then toUpperCase_word d # pascal_scan cs
      else c # pascal_scan (d # cs))"

definition toPascal :: "string \<Rightarrow> string" where
  "toPascal s =
     (case s of
        [] \<Rightarrow> []
      | c # cs \<Rightarrow> if is_word c then toUpperCase_word c # pascal_scan cs else pascal_scan s)"

text \<open>\<open>s.replace(/([A-Z])/g, '-$1').toLowerCase()\<close>\<close>

definition hyphenate :: "string \<Rightarrow> string" where
  "hyphenate s = concat (map (\<lambda>c. if is_upper c then [CHR ''-'', c] else [c]) s)"

definition toKebab :: "string \<Rightarrow> string" where
  "toKebab s = toLowerCase (hyphenate s)"

text \<open>
  \<open>s[0].toLowerCase() + toPascal(s).slice(1)\<close>: on the empty string \<open>s[0]\<close> is
  \<open>undefined\<close> and the method call throws a TypeError.
\<close>

definition toCamel :: "string \<Rightarrow> js_error + string" where
  "toCamel s =
     (case s of
        [] \<Rightarrow> Inl TypeError
      | c # _ \<Rightarrow> Inr (lower_unit c # drop 1 (toPascal s)))"


section \<open>Schema, options and feature flags\<close>

text \<open>
  A flag field of the schema document is absent (\<open>None\<close>, read as \<open>undefined\<close>), or
  holds \<open>null\<close> or a boolean. \<open>JSON.parse\<close> never yields \<open>undefined\<close> itself.
\<close>

datatype flag_value = JNull | JBool bool

record entity =
  name :: string
  tableName :: string

record schema =
  projectName :: string
  database :: "string option"
  dbDev :: "string option"
  dbTest :: "string option"
  authEntity :: "string option"
  entities :: "entity list option"
  graphql :: "flag_value option"
  docker :: "flag_value option"
  ci :: "flag_value option"
  terraform :: "flag_value option"
  adminPanel :: "flag_value option"

text \<open>
  \<open>program.opts()\<close> after \<open>path.resolve\<close>: \<open>schemaPath\<close> and \<open>outDir\<close> are absolute,
  normalised POSIX paths; the five flags are the booleans commander hands out.
\<close>

record options =
  schemaPath :: string
  outDir :: string
  enableGraphQL :: bool
  enableDocker :: bool
  enableCI :: bool
  enableTerraform :: bool
  enableAdmin :: bool

definition program_defaults :: "string \<Rightarrow> string \<Rightarrow> options" where
  \<comment> \<open>the defaults of the \<open>.option(...)\<close> declarations, no flag given on the command line\<close>
  "program_defaults sp od =
     \<lparr>schemaPath = sp, outDir = od, enableGraphQL = False, enableDocker = True,
      enableCI = True, enableTerraform = True, enableAdmin = True\<rparr>"

definition default_to :: "'a option \<Rightarrow> 'a \<Rightarrow> 'a" where
  \<comment> \<open>a destructuring default \<open>{ f = d } = schema\<close>: \<open>d\<close> only where \<open>f\<close> is \<open>undefined\<close>\<close>
  "default_to field d = (case field of None \<Rightarrow> d | Some v \<Rightarrow> v)"

record resolved_config =
  r_graphql :: flag_value
  r_docker :: flag_value
  r_ci :: flag_value
  r_terraform :: flag_value
  r_adminPanel :: flag_value

definition resolve :: "options \<Rightarrow> schema \<Rightarrow> resolved_config" where
  \<comment> \<open>the constants \<open>graphql\<close>, \<open>docker\<close>, \<open>ci\<close>, \<open>terraform\<close>, \<open>adminPanel\<close> of the destructuring\<close>
  "resolve opts sch =
     \<lparr>r_graphql = default_to (graphql sch) (JBool (enableGraphQL opts)),
      r_docker = default_to (docker sch) (JBool (enableDocker opts)),
      r_ci = default_to (ci sch) (JBool (enableCI opts)),
      r_terraform = default_to (terraform sch) (JBool (enableTerraform opts)),
      r_adminPanel = default_to (adminPanel sch) (JBool (enableAdmin opts))\<rparr>"

fun truthy :: "flag_value \<Rightarrow> bool" where
  \<comment> \<open>the test of \<open>if (flag)\<close>\<close>
  "truthy JNull = False"
| "truthy (JBool b) = b"

definition entities_of :: "schema \<Rightarrow> entity list" where
  "entities_of sch = default_to (entities sch) []"

definition dbDev_of :: "schema \<Rightarrow> string" where
  "dbDev_of sch = default_to (dbDev sch) ''sqlite''"

definition dbTest_of :: "schema \<Rightarrow> string" where
  "dbTest_of sch = default_to (dbTest sch) ''sqlite''"

section \<open>Render calls and paths\<close>

datatype ctx_value =
    VString string
  | VStringOpt "string option"
  | VBool bool
  | VFlag flag_value
  | VSchema schema
  | VEntity entity
  | VEntities "entity list"

text \<open>One call \<open>render(src, dest, data)\<close>: the template, the destination and the context.\<close>

record render_call =
  src :: string
  dest :: string
  data :: "(string \<times> ctx_value) list"

definition render :: "string \<Rightarrow> string \<Rightarrow> (string \<times> ctx_value) list \<Rightarrow> render_call" where
  "render s d ctx = \<lparr>src = s, dest = d, data = ctx\<rparr>"

definition path_join :: "string \<Rightarrow> string \<Rightarrow> string" where
  \<comment> \<open>\<open>path.join(dir, seg)\<close> for a resolved \<open>dir\<close> and a plain segment: the root keeps its
      single slash\<close>
  "path_join dir seg = (if dir = ''/'' then dir @ seg else dir @ ''/'' @ seg)"

definition BACK :: "options \<Rightarrow> string" where
  "BACK opts = path_join (outDir opts) ''backend''"

definition FRONT :: "options \<Rightarrow> string" where
  "FRONT opts = path_join (outDir opts) ''frontend''"

text \<open>
  A number in a template literal: \<open>Date.now()\<close> is a non-negative integer far below
  \<open>10^21\<close>, which JavaScript prints as its plain decimal digits.
\<close>

definition digit_char :: "nat \<Rightarrow> char" where
  "digit_char d = char_of (48 + d)"

fun show_nat :: "nat \<Rightarrow> string" where
  "show_nat n = (if n < 10 then [digit_char n] else show_nat (n div 10) @ [digit_char (n mod 10)])"

declare show_nat.simps [simp del]


section \<open>The generator script (generator.js)\<close>

text \<open>
  What the script does to the outside world, in order. \<open>Render\<close> marks the call of the
  asynchronous \<open>render\<close>, whose arguments are evaluated at the call; the file is written
  when the template backend has answered.
\<close>

datatype event =
    EmptyDir string
  | EnsureDir string
  | Render render_call
  | Stdout string
  | Stderr string
  | Uncaught js_error

definition dirs :: "options \<Rightarrow> string list" where
  "dirs opts =
     [BACK opts @ ''/src/models'',
      BACK opts @ ''/src/controllers'',
      BACK opts @ ''/src/routes'',
      BACK opts @ ''/src/middleware'',
      BACK opts @ ''/src/graphql'',
      BACK opts @ ''/tests'',
      BACK opts @ ''/uploads'',
      FRONT opts @ ''/src/app/core'',
      FRONT opts @ ''/src/app/features'',
      FRONT opts @ ''/src/app/shared'']
     @ (if enableAdmin opts
        then [FRONT opts @ ''/src/app/@theme/layouts'', FRONT opts @ ''/src/app/pages'']
        else [])
     @ (if enableTerraform opts then [outDir opts @ ''/terraform''] else [])"

definition root_files :: "options \<Rightarrow> schema \<Rightarrow> render_call list" where
  "root_files opts sch =
     (if truthy (r_docker (resolve opts sch))
      then [render ''docker/Dockerfile.backend'' (BACK opts @ ''/Dockerfile'')
              [(''projectName'', VString (projectName sch))],
            render ''docker/Dockerfile.frontend'' (FRONT opts @ ''/Dockerfile'')
              [(''projectName'', VString (projectName sch))],
            render ''docker/docker-compose.yml'' (outDir opts @ ''/docker-compose.yml'')
              [(''projectName'', VString (projectName sch)), (''schema'', VSchema sch)]]
      else [])
     @ (if truthy (r_ci (resolve opts sch))
        then [render ''ci/github-workflow.yml'' (outDir opts @ ''/.github/workflows/ci.yml'')
                [(''projectName'', VString (projectName sch)),
                 (''enableTerraform'', VBool (enableTerraform opts))]]
        else [])
     @ (if truthy (r_terraform (resolve opts sch))
        then [render ''terraform/main.tf'' (outDir opts @ ''/terraform/main.tf'')
                [(''projectName'', VString (projectName sch)), (''schema'', VSchema sch)],
              render ''terraform/variables.tf'' (outDir opts @ ''/terraform/variables.tf'')
                [(''projectName'', VString (projectName sch))],
              render ''terraform/outputs.tf'' (outDir opts @ ''/terraform/outputs.tf'')
                [(''projectName'', VString (projectName sch))],
              render ''terraform/terraform.tfvars.example''
                (outDir opts @ ''/terraform/terraform.tfvars.example'')
                [(''projectName'', VString (projectName sch))]]
        else [])"

definition backend_files :: "options \<Rightarrow> schema \<Rightarrow> render_call list" where
  "backend_files opts sch =
     [render ''backend/package.json.ejs'' (BACK opts @ ''/package.json'')
        [(''schema'', VSchema sch), (''enableGraphQL'', VBool (enableGraphQL opts)),
         (''enableDocker'', VBool (enableDocker opts)), (''enableCI'', VBool (enableCI opts)),
         (''enableTerraform'', VBool (enableTerraform opts)),
         (''enableAdmin'', VBool (enableAdmin opts))],
      render ''backend/tsconfig.json.ejs'' (BACK opts @ ''/tsconfig.json'') [],
      render ''backend/.env.example'' (BACK opts @ ''/.env.example'') [(''schema'', VSchema sch)],
      render ''backend/src/server.ts.ejs'' (BACK opts @ ''/src/server.ts'')
        [(''schema'', VSchema sch), (''enableGraphQL'', VBool (enableGraphQL opts)),
         (''enableAdmin'', VBool (enableAdmin opts))],
      render ''backend/src/config/database.ts.ejs'' (BACK opts @ ''/src/config/database.ts'')
        [(''dbDev'', VString (dbDev_of sch)), (''dbTest'', VString (dbTest_of sch))],
      render ''backend/src/middleware/auth.ts.ejs'' (BACK opts @ ''/src/middleware/auth.ts'')
        [(''authEntity'', VStringOpt (authEntity sch))],
      render ''backend/src/middleware/upload.ts.ejs'' (BACK opts @ ''/src/middleware/upload.ts'') [],
      render ''backend/src/middleware/error.ts.ejs'' (BACK opts @ ''/src/middleware/error.ts'') []]"

text \<open>
  The first loop over the entities. \<open>clock i\<close> is what the call number \<open>i\<close> of
  \<open>Date.now()\<close> returns in this run (milliseconds since the epoch); the loop makes one
  call per entity, and nothing else in the script reads the clock.
\<close>

fun models_loop :: "options \<Rightarrow> schema \<Rightarrow> (nat \<Rightarrow> nat) \<Rightarrow> nat \<Rightarrow> entity list \<Rightarrow> render_call list" where
  "models_loop opts sch clock i [] = []"
| "models_loop opts sch clock i (ent # ents) =
     [render ''backend/src/models/model.ts.ejs'' (BACK opts @ ''/src/models/'' @ name ent @ ''.ts'')
        [(''ent'', VEntity ent), (''schema'', VSchema sch)],
      render ''backend/migrations/create-table.ts.ejs''
        (BACK opts @ ''/migrations/'' @ show_nat (clock i) @ ''-create-'' @ tableName ent @ ''.ts'')
        [(''ent'', VEntity ent)],
      render ''backend/tests/model.test.ts.ejs'' (BACK opts @ ''/tests/'' @ name ent @ ''.test.ts'')
        [(''ent'', VEntity ent)]]
     @ models_loop opts sch clock (Suc i) ents"

fun controllers_loop :: "options \<Rightarrow> schema \<Rightarrow> entity list \<Rightarrow> render_call list" where
  "controllers_loop opts sch [] = []"
| "controllers_loop opts sch (ent # ents) =
     (let kebab = toKebab (name ent)
      in [render ''backend/src/controllers/controller.ts.ejs''
            (BACK opts @ ''/src/controllers/'' @ name ent @ ''Controller.ts'')
            [(''ent'', VEntity ent), (''schema'', VSchema sch),
             (''enableGraphQL'', VBool (enableGraphQL opts))],
          render ''backend/src/routes/route.ts.ejs'' (BACK opts @ ''/src/routes/'' @ kebab @ ''.ts'')
            [(''ent'', VEntity ent), (''schema'', VSchema sch),
             (''enableGraphQL'', VBool (enableGraphQL opts))]])
     @ controllers_loop opts sch ents"

definition routes_index :: "options \<Rightarrow> schema \<Rightarrow> render_call list" where
  "routes_index opts sch =
     [render ''backend/src/routes/index.ts.ejs'' (BACK opts @ ''/src/routes/index.ts'')
        [(''entities'', VEntities (entities_of sch)),
         (''enableGraphQL'', VBool (enableGraphQL opts))]]"

definition graphql_files :: "options \<Rightarrow> schema \<Rightarrow> render_call list" where
  "graphql_files opts sch =
     (if enableGraphQL opts
      then [render ''backend/src/graphql/typeDefs.ts.ejs'' (BACK opts @ ''/src/graphql/typeDefs.ts'')
              [(''entities'', VEntities (entities_of sch))],
            render ''backend/src/graphql/resolvers.ts.ejs'' (BACK opts @ ''/src/graphql/resolvers.ts'')
              [(''entities'', VEntities (entities_of sch)),
               (''authEntity'', VStringOpt (authEntity sch))]]
      else [])"

definition frontend_files :: "options \<Rightarrow> schema \<Rightarrow> render_call list" where
  "frontend_files opts sch =
     [render ''frontend/package.json.ejs'' (FRONT opts @ ''/package.json'')
        [(''schema'', VSchema sch), (''enableGraphQL'', VBool (enableGraphQL opts)),
         (''enableAdmin'', VBool (enableAdmin opts))],
      render ''frontend/angular.json.ejs'' (FRONT opts @ ''/angular.json'')
        [(''projectName'', VString (projectName sch)), (''enableAdmin'', VBool (enableAdmin opts))],
      render ''frontend/tsconfig.json.ejs'' (FRONT opts @ ''/tsconfig.json'') [],
      render ''frontend/src/index.html.ejs'' (FRONT opts @ ''/src/index.html'')
        [(''projectName'', VString (projectName sch))],
      render ''frontend/src/main.ts.ejs'' (FRONT opts @ ''/src/main.ts'')
        [(''enableAdmin'', VBool (enableAdmin opts)),
         (''enableGraphQL'', VBool (enableGraphQL opts))],
      render ''frontend/src/polyfills.ts.ejs'' (FRONT opts @ ''/src/polyfills.ts'') [],
      render ''frontend/src/styles.scss.ejs'' (FRONT opts @ ''/src/styles.scss'')
        [(''enableAdmin'', VBool (enableAdmin opts))],
      render ''frontend/src/app/app.module.ts.ejs'' (FRONT opts @ ''/src/app/app.module.ts'')
        [(''entities'', VEntities (entities_of sch)), (''enableAdmin'', VBool (enableAdmin opts)),
         (''enableGraphQL'', VBool (enableGraphQL opts))],
      render ''frontend/src/app/app-routing.module.ts.ejs''
        (FRONT opts @ ''/src/app/app-routing.module.ts'')
        [(''entities'', VEntities (entities_of sch)), (''enableAdmin'', VBool (enableAdmin opts))],
      render ''frontend/src/app/app.component.html.ejs'' (FRONT opts @ ''/src/app/app.component.html'')
        [(''enableAdmin'', VBool (enableAdmin opts))],
      render ''frontend/src/app/app.component.ts.ejs'' (FRONT opts @ ''/src/app/app.component.ts'')
        [(''enableAdmin'', VBool (enableAdmin opts))],
      render ''frontend/src/app/core/auth/auth.service.ts.ejs''
        (FRONT opts @ ''/src/app/core/auth/auth.service.ts'')
        [(''authEntity'', VStringOpt (authEntity sch))],
      render ''frontend/src/app/core/auth/jwt.interceptor.ts.ejs''
        (FRONT opts @ ''/src/app/core/auth/jwt.interceptor.ts'') [],
      render ''frontend/src/app/core/auth/auth.guard.ts.ejs''
        (FRONT opts @ ''/src/app/core/auth/auth.guard.ts'') []]"

definition featurePath :: "options \<Rightarrow> entity \<Rightarrow> string" where
  "featurePath opts ent = FRONT opts @ ''/src/app/features/'' @ toKebab (name ent)"

definition feature_module :: "options \<Rightarrow> entity \<Rightarrow> render_call list" where
  \<comment> \<open>the six \<open>render\<close> calls of one pass of the feature loop\<close>
  "feature_module opts ent =
     (let name = name ent; kebab = toKebab name; featurePath = featurePath opts ent
      in [render ''frontend/src/app/features/entity/entity.module.ts.ejs''
            (featurePath @ ''/'' @ kebab @ ''.module.ts'')
            [(''ent'', VEntity ent), (''name'', VString name), (''kebab'', VString kebab),
             (''enableAdmin'', VBool (enableAdmin opts)),
             (''enableGraphQL'', VBool (enableGraphQL opts))],
          render ''frontend/src/app/features/entity/entity.service.ts.ejs''
            (featurePath @ ''/'' @ kebab @ ''.service.ts'')
            [(''ent'', VEntity ent), (''name'', VString name), (''kebab'', VString kebab),
             (''enableGraphQL'', VBool (enableGraphQL opts))],
          render ''frontend/src/app/features/entity/entity-list.component.html.ejs''
            (featurePath @ ''/'' @ kebab @ ''-list.component.html'')
            [(''ent'', VEntity ent), (''name'', VString name), (''kebab'', VString kebab),
             (''enableAdmin'', VBool (enableAdmin opts))],
          render ''frontend/src/app/features/entity/entity-list.component.ts.ejs''
            (featurePath @ ''/'' @ kebab @ ''-list.component.ts'')
            [(''ent'', VEntity ent), (''name'', VString name), (''kebab'', VString kebab),
             (''enableAdmin'', VBool (enableAdmin opts)),
             (''enableGraphQL'', VBool (enableGraphQL opts))],
          render ''frontend/src/app/features/entity/entity-form.component.html.ejs''
            (featurePath @ ''/'' @ kebab @ ''-form.component.html'')
            [(''ent'', VEntity ent), (''name'', VString name), (''kebab'', VString kebab),
             (''enableAdmin'', VBool (enableAdmin opts))],
          render ''frontend/src/app/features/entity/entity-form.component.ts.ejs''
            (featurePath @ ''/'' @ kebab @ ''-form.component.ts'')
            [(''ent'', VEntity ent), (''name'', VString name), (''kebab'', VString kebab),
             (''enableAdmin'', VBool (enableAdmin opts)),
             (''enableGraphQL'', VBool (enableGraphQL opts))]])"

fun features_loop :: "options \<Rightarrow> entity list \<Rightarrow> event list" where
  "features_loop opts [] = []"
| "features_loop opts (ent # ents) =
     EnsureDir (featurePath opts ent) # map Render (feature_module opts ent)
     @ features_loop opts ents"

definition admin_files :: "options \<Rightarrow> schema \<Rightarrow> render_call list" where
  "admin_files opts sch =
     (if enableAdmin opts
      then [render ''frontend/src/app/@theme/@theme.module.ts.ejs''
              (FRONT opts @ ''/src/app/@theme/@theme.module.ts'') [],
            render ''frontend/src/app/@theme/styles/themes.scss.ejs''
              (FRONT opts @ ''/src/app/@theme/styles/themes.scss'') [],
            render ''frontend/src/app/pages/pages.module.ts.ejs''
              (FRONT opts @ ''/src/app/pages/pages.module.ts'')
              [(''entities'', VEntities (entities_of sch))],
            render ''frontend/src/app/pages/dashboard/dashboard.component.html.ejs''
              (FRONT opts @ ''/src/app/pages/dashboard/dashboard.component.html'') [],
            render ''frontend/src/app/pages/dashboard/dashboard.component.ts.ejs''
              (FRONT opts @ ''/src/app/pages/dashboard/dashboard.component.ts'')
              [(''entities'', VEntities (entities_of sch))]]
      else [])"

definition done_log :: "options \<Rightarrow> schema \<Rightarrow> event list" where
  "done_log opts sch =
     [Stdout (''\<newline>Project generated at: '' @ outDir opts),
      Stdout ''\<newline>Next steps:'',
      Stdout (''  cd '' @ outDir opts)]
     @ (if truthy (r_docker (resolve opts sch)) then [Stdout ''  docker-compose up --build''] else [])
     @ (if truthy (r_terraform (resolve opts sch))
        then [Stdout ''  cd terraform && terraform init && terraform apply''] else [])
     @ [Stdout ''\<newline>'']"

definition generate :: "options \<Rightarrow> schema \<Rightarrow> (nat \<Rightarrow> nat) \<Rightarrow> event list" where
  \<comment> \<open>the script from \<open>fs.emptyDirSync(outDir)\<close> to its last line\<close>
  "generate opts sch clock =
     EmptyDir (outDir opts) # map EnsureDir (dirs opts)
     @ map Render (root_files opts sch)
     @ map Render (backend_files opts sch)
     @ map Render (models_loop opts sch clock 0 (entities_of sch))
     @ map Render (controllers_loop opts sch (entities_of sch))
     @ map Render (routes_index opts sch)
     @ map Render (graphql_files opts sch)
     @ map Render (frontend_files opts sch)
     @ features_loop opts (entities_of sch)
     @ map Render (admin_files opts sch)
     @ done_log opts sch"

fun rendered :: "event list \<Rightarrow> render_call list" where
  \<comment> \<open>the artifact plan of a run: its \<open>render\<close> calls, in order\<close>
  "rendered [] = []"
| "rendered (Render r # evs) = r # rendered evs"
| "rendered (_ # evs) = rendered evs"

definition plan :: "options \<Rightarrow> schema \<Rightarrow> (nat \<Rightarrow> nat) \<Rightarrow> render_call list" where
  "plan opts sch clock = rendered (generate opts sch clock)"

section \<open>The sibling copy of the script\<close>

text \<open>
  The repository holds a second copy of the script. It gates every optional directory and
  file on the constants of the destructuring, hands the whole schema to every template,
  and renders one more backend file, the authentication routes. Its helpers, its options
  and its loading of the schema are those of generator.js.
\<close>

definition dirs_sib :: "options \<Rightarrow> schema \<Rightarrow> string list" where
  "dirs_sib opts sch =
     [BACK opts @ ''/src/models'',
      BACK opts @ ''/src/controllers'',
      BACK opts @ ''/src/routes'',
      BACK opts @ ''/src/middleware'',
      BACK opts @ ''/src/graphql'',
      BACK opts @ ''/tests'',
      BACK opts @ ''/uploads'',
      FRONT opts @ ''/src/app/core'',
      FRONT opts @ ''/src/app/features'',
      FRONT opts @ ''/src/app/shared'']
     @ (if truthy (r_adminPanel (resolve opts sch))
        then [FRONT opts @ ''/src/app/@theme/layouts'', FRONT opts @ ''/src/app/pages'']
        else [])
     @ (if truthy (r_terraform (resolve opts sch)) then [outDir opts @ ''/terraform''] else [])"

definition root_files_sib :: "options \<Rightarrow> schema \<Rightarrow> render_call list" where
  "root_files_sib opts sch =
     (if truthy (r_docker (resolve opts sch))
      then [render ''docker/Dockerfile.backend'' (BACK opts @ ''/Dockerfile'')
              [(''schema'', VSchema sch)],
            render ''docker/Dockerfile.frontend'' (FRONT opts @ ''/Dockerfile'')
              [(''schema'', VSchema sch)],
            render ''docker/docker-compose.yml'' (outDir opts @ ''/docker-compose.yml'')
              [(''schema'', VSchema sch)]]
      else [])
     @ (if truthy (r_ci (resolve opts sch))
        then [render ''ci/github-workflow.yml'' (outDir opts @ ''/.github/workflows/ci.yml'')
                [(''schema'', VSchema sch)]]
        else [])
     @ (if truthy (r_terraform (resolve opts sch))
        then [render ''terraform/main.tf'' (outDir opts @ ''/terraform/main.tf'')
                [(''schema'', VSchema sch)],
              render ''terraform/variables.tf'' (outDir opts @ ''/terraform/variables.tf'')
                [(''schema'', VSchema sch)],
              render ''terraform/outputs.tf'' (outDir opts @ ''/terraform/outputs.tf'')
                [(''schema'', VSchema sch)],
              render ''terraform/terraform.tfvars.example''
                (outDir opts @ ''/terraform/terraform.tfvars.example'')
                [(''schema'', VSchema sch)]]
        else [])"

definition backend_files_sib :: "options \<Rightarrow> schema \<Rightarrow> render_call list" where
  "backend_files_sib opts sch =
     [render ''backend/package.json.ejs'' (BACK opts @ ''/package.json'') [(''schema'', VSchema sch)],
      render ''backend/tsconfig.json.ejs'' (BACK opts @ ''/tsconfig.json'') [],
      render ''backend/.env.example'' (BACK opts @ ''/.env.example'') [(''schema'', VSchema sch)],
      render ''backend/src/server.ts.ejs'' (BACK opts @ ''/src/server.ts'') [(''schema'', VSchema sch)],
      render ''backend/src/config/database.ts.ejs'' (BACK opts @ ''/src/config/database.ts'')
        [(''schema'', VSchema sch)],
      render ''backend/src/middleware/auth.ts.ejs'' (BACK opts @ ''/src/middleware/auth.ts'')
        [(''schema'', VSchema sch)],
      render ''backend/src/middleware/upload.ts.ejs'' (BACK opts @ ''/src/middleware/upload.ts'')
        [(''schema'', VSchema sch)],
      render ''backend/src/middleware/error.ts.ejs'' (BACK opts @ ''/src/middleware/error.ts'')
        [(''schema'', VSchema sch)],
      render ''backend/src/routes/auth.ts.ejs'' (BACK opts @ ''/src/routes/auth.ts'')
        [(''schema'', VSchema sch)]]"

fun models_loop_sib :: "options \<Rightarrow> schema \<Rightarrow> (nat \<Rightarrow> nat) \<Rightarrow> nat \<Rightarrow> entity list \<Rightarrow> render_call list" where
  "models_loop_sib opts sch clock i [] = []"
| "models_loop_sib opts sch clock i (ent # ents) =
     [render ''backend/src/models/model.ts.ejs'' (BACK opts @ ''/src/models/'' @ name ent @ ''.ts'')
        [(''ent'', VEntity ent), (''schema'', VSchema sch)],
      render ''backend/migrations/create-table.ts.ejs''
        (BACK opts @ ''/migrations/'' @ show_nat (clock i) @ ''-create-'' @ tableName ent @ ''.ts'')
        [(''ent'', VEntity ent), (''schema'', VSchema sch)],
      render ''backend/tests/model.test.ts.ejs'' (BACK opts @ ''/tests/'' @ name ent @ ''.test.ts'')
        [(''ent'', VEntity ent), (''schema'', VSchema sch)]]
     @ models_loop_sib opts sch clock (Suc i) ents"

fun controllers_loop_sib :: "options \<Rightarrow> schema \<Rightarrow> entity list \<Rightarrow> render_call list" where
  "controllers_loop_sib opts sch [] = []"
| "controllers_loop_sib opts sch (ent # ents) =
     (let kebab = toKebab (name ent)
      in [render ''backend/src/controllers/controller.ts.ejs''
            (BACK opts @ ''/src/controllers/'' @ name ent @ ''Controller.ts'')
            [(''ent'', VEntity ent), (''schema'', VSchema sch)],
          render ''backend/src/routes/route.ts.ejs'' (BACK opts @ ''/src/routes/'' @ kebab @ ''.ts'')
            [(''ent'', VEntity ent), (''schema'', VSchema sch)]])
     @ controllers_loop_sib opts sch ents"

definition routes_index_sib :: "options \<Rightarrow> schema \<Rightarrow> render_call list" where
  "routes_index_sib opts sch =
     [render ''backend/src/routes/index.ts.ejs'' (BACK opts @ ''/src/routes/index.ts'')
        [(''entities'', VEntities (entities_of sch)), (''schema'', VSchema sch)]]"

definition graphql_files_sib :: "options \<Rightarrow> schema \<Rightarrow> render_call list" where
  "graphql_files_sib opts sch =
     (if truthy (r_graphql (resolve opts sch))
      then [render ''backend/src/graphql/typeDefs.ts.ejs'' (BACK opts @ ''/src/graphql/typeDefs.ts'')
              [(''entities'', VEntities (entities_of sch)), (''schema'', VSchema sch)],
            render ''backend/src/graphql/resolvers.ts.ejs'' (BACK opts @ ''/src/graphql/resolvers.ts'')
              [(''entities'', VEntities (entities_of sch)), (''schema'', VSchema sch),
               (''authEntity'', VStringOpt (authEntity sch))]]
      else [])"

definition frontend_files_sib :: "options \<Rightarrow> schema \<Rightarrow> render_call list" where
  "frontend_files_sib opts sch =
     [render ''frontend/package.json.ejs'' (FRONT opts @ ''/package.json'') [(''schema'', VSchema sch)],
      render ''frontend/angular.json.ejs'' (FRONT opts @ ''/angular.json'') [(''schema'', VSchema sch)],
      render ''frontend/tsconfig.json.ejs'' (FRONT opts @ ''/tsconfig.json'') [],
      render ''frontend/src/index.html.ejs'' (FRONT opts @ ''/src/index.html'')
        [(''schema'', VSchema sch)],
      render ''frontend/src/main.ts.ejs'' (FRONT opts @ ''/src/main.ts'') [(''schema'', VSchema sch)],
      render ''frontend/src/polyfills.ts.ejs'' (FRONT opts @ ''/src/polyfills.ts'') [],
      render ''frontend/src/styles.scss.ejs'' (FRONT opts @ ''/src/styles.scss'')
        [(''schema'', VSchema sch)],
      render ''frontend/src/app/app.module.ts.ejs'' (FRONT opts @ ''/src/app/app.module.ts'')
        [(''schema'', VSchema sch)],
      render ''frontend/src/app/app-routing.module.ts.ejs''
        (FRONT opts @ ''/src/app/app-routing.module.ts'') [(''schema'', VSchema sch)],
      render ''frontend/src/app/app.component.html.ejs'' (FRONT opts @ ''/src/app/app.component.html'')
        [(''schema'', VSchema sch)],
      render ''frontend/src/app/app.component.ts.ejs'' (FRONT opts @ ''/src/app/app.component.ts'')
        [(''schema'', VSchema sch)],
      render ''frontend/src/app/core/auth/auth.service.ts.ejs''
        (FRONT opts @ ''/src/app/core/auth/auth.service.ts'') [(''schema'', VSchema sch)],
      render ''frontend/src/app/core/auth/jwt.interceptor.ts.ejs''
        (FRONT opts @ ''/src/app/core/auth/jwt.interceptor.ts'') [(''schema'', VSchema sch)],
      render ''frontend/src/app/core/auth/auth.guard.ts.ejs''
        (FRONT opts @ ''/src/app/core/auth/auth.guard.ts'') [(''schema'', VSchema sch)]]"

definition feature_module_sib :: "options \<Rightarrow> schema \<Rightarrow> entity \<Rightarrow> render_call list" where
  "feature_module_sib opts sch ent =
     (let name = name ent; kebab = toKebab name; featurePath = featurePath opts ent;
          ctx = [(''ent'', VEntity ent), (''name'', VString name), (''kebab'', VString kebab),
                 (''schema'', VSchema sch)]
      in [render ''frontend/src/app/features/entity/entity.module.ts.ejs''
            (featurePath @ ''/'' @ kebab @ ''.module.ts'') ctx,
          render ''frontend/src/app/features/entity/entity.service.ts.ejs''
            (featurePath @ ''/'' @ kebab @ ''.service.ts'') ctx,
          render ''frontend/src/app/features/entity/entity-list.component.html.ejs''
            (featurePath @ ''/'' @ kebab @ ''-list.component.html'') ctx,
          render ''frontend/src/app/features/entity/entity-list.component.ts.ejs''
            (featurePath @ ''/'' @ kebab @ ''-list.component.ts'') ctx,
          render ''frontend/src/app/features/entity/entity-form.component.html.ejs''
            (featurePath @ ''/'' @ kebab @ ''-form.component.html'') ctx,
          render ''frontend/src/app/features/entity/entity-form.component.ts.ejs''
            (featurePath @ ''/'' @ kebab @ ''-form.component.ts'') ctx])"

fun features_loop_sib :: "options \<Rightarrow> schema \<Rightarrow> entity list \<Rightarrow> event list" where
  "features_loop_sib opts sch [] = []"
| "features_loop_sib opts sch (ent # ents) =
     EnsureDir (featurePath opts ent) # map Render (feature_module_sib opts sch ent)
     @ features_loop_sib opts sch ents"

definition admin_files_sib :: "options \<Rightarrow> schema \<Rightarrow> render_call list" where
  "admin_files_sib opts sch =
     (if truthy (r_adminPanel (resolve opts sch))
      then [render ''frontend/src/app/@theme/@theme.module.ts.ejs''
              (FRONT opts @ ''/src/app/@theme/@theme.module.ts'') [(''schema'', VSchema sch)],
            render ''frontend/src/app/@theme/styles/themes.scss.ejs''
              (FRONT opts @ ''/src/app/@theme/styles/themes.scss'') [(''schema'', VSchema sch)],
            render ''frontend/src/app/pages/pages.module.ts.ejs''
              (FRONT opts @ ''/src/app/pages/pages.module.ts'') [(''schema'', VSchema sch)],
            render ''frontend/src/app/pages/dashboard/dashboard.component.html.ejs''
              (FRONT opts @ ''/src/app/pages/dashboard/dashboard.component.html'')
              [(''schema'', VSchema sch)],
            render ''frontend/src/app/pages/dashboard/dashboard.component.ts.ejs''
              (FRONT opts @ ''/src/app/pages/dashboard/dashboard.component.ts'')
              [(''schema'', VSchema sch)]]
      else [])"

definition generate_sib :: "options \<Rightarrow> schema \<Rightarrow> (nat \<Rightarrow> nat) \<Rightarrow> event list" where
  "generate_sib opts sch clock =
     EmptyDir (outDir opts) # map EnsureDir (dirs_sib opts sch)
     @ map Render (root_files_sib opts sch)
     @ map Render (backend_files_sib opts sch)
     @ map Render (models_loop_sib opts sch clock 0 (entities_of sch))
     @ map Render (controllers_loop_sib opts sch (entities_of sch))
     @ map Render (routes_index_sib opts sch)
     @ map Render (graphql_files_sib opts sch)
     @ map Render (frontend_files_sib opts sch)
     @ features_loop_sib opts sch (entities_of sch)
     @ map Render (admin_files_sib opts sch)
     @ done_log opts sch"

definition plan_sib :: "options \<Rightarrow> schema \<Rightarrow> (nat \<Rightarrow> nat) \<Rightarrow> render_call list" where
  "plan_sib opts sch clock = rendered (generate_sib opts sch clock)"

section \<open>The start of the script\<close>

text \<open>
  The start of both copies. \<open>files\<close> is the file system as \<open>fs.existsSync\<close> and
  \<open>fs.readFileSync\<close> see it. \<open>parse\<close> stands for \<open>JSON.parse\<close> and the destructuring
  that follows it: it yields the schema of the data model, or the exception thrown, a
  SyntaxError for malformed text, a TypeError for the document \<open>null\<close>. An exception
  nobody catches makes Node write the error to the error stream and end the process with
  exit code 1. The exit code of a run that reaches the end is 0; the template backend is
  outside the model and taken not to fail.
\<close>

record world =
  files :: "string \<Rightarrow> string option"
  now :: "nat \<Rightarrow> nat"

record outcome =
  exit_code :: nat
  trace :: "event list"

definition main :: "(string \<Rightarrow> js_error + schema) \<Rightarrow> world \<Rightarrow> options \<Rightarrow> outcome" where
  "main parse w opts =
     (case files w (schemaPath opts) of
        None \<Rightarrow> \<lparr>exit_code = 1, trace = [Stderr (''Schema not found: '' @ schemaPath opts)]\<rparr>
      | Some content \<Rightarrow>
          (case parse content of
             Inl err \<Rightarrow> \<lparr>exit_code = 1, trace = [Uncaught err]\<rparr>
           | Inr sch \<Rightarrow> \<lparr>exit_code = 0, trace = generate opts sch (now w)\<rparr>))"


section \<open>Notions used to state the properties\<close>

text \<open>
  \<open>keeps_head s\<close>: \<open>toPascal\<close> leaves the first character of \<open>s\<close> in place; that is,
  \<open>s\<close> starts neither with a lower-case ASCII letter nor with a hyphen followed by a word
  character. \<open>hyphens_lower s\<close>: wherever a hyphen of \<open>s\<close> is followed by a word
  character, that character is a lower-case ASCII letter.
\<close>

definition keeps_head :: "string \<Rightarrow> bool" where
  "keeps_head s \<longleftrightarrow> take 1 (toPascal s) = take 1 s"

fun hyphens_lower :: "string \<Rightarrow> bool" where
  "hyphens_lower [] = True"
| "hyphens_lower [c] = True"
| "hyphens_lower (c # d # cs) =
     ((c = CHR ''-'' \<and> is_word d \<longrightarrow> is_lower d) \<and> hyphens_lower (d # cs))"

text \<open>
  \<open>toKebab\<close> as the specification words it, for comparison with the helper of the script:
  a hyphen before every upper-case character except a leading one, then lower case.
\<close>

definition toKebab_spec :: "string \<Rightarrow> string" where
  "toKebab_spec s = toLowerCase (case s of [] \<Rightarrow> [] | c # cs \<Rightarrow> c # hyphenate cs)"

fun on_error_stream :: "event \<Rightarrow> bool" where
  "on_error_stream (Stderr _) = True"
| "on_error_stream (Uncaught _) = True"
| "on_error_stream _ = False"

fun touches_output :: "event \<Rightarrow> bool" where
  \<comment> \<open>the events that clear, create or write under the output directory\<close>
  "touches_output (EmptyDir _) = True"
| "touches_output (EnsureDir _) = True"
| "touches_output (Render _) = True"
| "touches_output _ = False"

text \<open>The schema of scenario A, \<open>{projectName: "Blog", entities: [{name: "Post", tableName: "posts"}]}\<close>.\<close>

definition blog_schema :: schema where
  "blog_schema =
     \<lparr>projectName = ''Blog'', database = None, dbDev = None, dbTest = None, authEntity = None,
      entities = Some [\<lparr>name = ''Post'', tableName = ''posts''\<rparr>],
      graphql = None, docker = None, ci = None, terraform = None, adminPanel = None\<rparr>"

definition blog_options :: options where
  "blog_options = program_defaults ''/work/schema.json'' ''/work/my-app''"

text \<open>
  The migration entries of a plan, and the number that heads the file name of a migration
  path: the decimal digits that follow \<open>BACK/migrations/\<close>.
\<close>

definition migrations :: "render_call list \<Rightarrow> render_call list" where
  "migrations rs = filter (\<lambda>r. src r = ''backend/migrations/create-table.ts.ejs'') rs"

definition digit_value :: "char \<Rightarrow> nat" where
  "digit_value c = of_char c - 48"

definition read_nat :: "string \<Rightarrow> nat" where
  "read_nat s = foldl (\<lambda>a c. 10 * a + digit_value c) 0 s"

definition embedded_timestamp :: "options \<Rightarrow> string \<Rightarrow> nat" where
  "embedded_timestamp opts p =
     read_nat (takeWhile is_digit (drop (length (BACK opts @ ''/migrations/'')) p))"

definition migration_dest :: "options \<Rightarrow> (nat \<Rightarrow> nat) \<Rightarrow> nat \<times> entity \<Rightarrow> string" where
  "migration_dest opts clock ie =
     BACK opts @ ''/migrations/'' @ show_nat (clock (fst ie)) @ ''-create-'' @ tableName (snd ie) @ ''.ts''"

text \<open>A clock that stands still during the run, and a schema with two entities.\<close>

definition same_millisecond :: "nat \<Rightarrow> nat" where
  "same_millisecond i = 1700000000000"

definition two_entities :: schema where
  "two_entities =
     blog_schema\<lparr>entities := Some [\<lparr>name = ''Post'', tableName = ''posts''\<rparr>,
                                   \<lparr>name = ''Comment'', tableName = ''comments''\<rparr>]\<rparr>"

text \<open>Worlds and a parser for the failing starts of the script.\<close>

definition no_schema_world :: world where
  "no_schema_world = \<lparr>files = Map.empty, now = same_millisecond\<rparr>"

definition broken_schema_world :: world where
  "broken_schema_world = \<lparr>files = [''/work/schema.json'' \<mapsto> ''{''], now = same_millisecond\<rparr>"

definition reject :: "string \<Rightarrow> js_error + schema" where
  "reject content = Inl SyntaxError"

text \<open>
  A schema that overrides three flags against the command-line defaults, two more clocks,
  and the entries of a plan that are not migrations.
\<close>

definition overriding_schema :: schema where
  "overriding_schema =
     blog_schema\<lparr>graphql := Some (JBool True), terraform := Some (JBool False),
                  adminPanel := Some (JBool False)\<rparr>"

definition next_millisecond :: "nat \<Rightarrow> nat" where
  "next_millisecond i = 1700000000001"

definition late_tick :: "nat \<Rightarrow> nat" where
  "late_tick i = (if i = 0 then 1700000000000 else 1700000000001)"

definition others :: "render_call list \<Rightarrow> render_call list" where
  "others rs = filter (\<lambda>r. src r \<noteq> ''backend/migrations/create-table.ts.ejs'') rs"

text \<open>
  Destination paths are sorted by the directory they lie in, read after the root of the
  output tree: section 0 to 5 for the six directories that receive per-entity files,
  section 6 for every other path.
\<close>

fun starts_with :: "string \<Rightarrow> string \<Rightarrow> bool" where
  "starts_with [] t = True"
| "starts_with (c # p) [] = False"
| "starts_with (c # p) (d # t) = (c = d \<and> starts_with p t)"

definition path_section :: "string \<Rightarrow> nat" where
  "path_section t =
     (if starts_with ''/backend/src/models/'' t then 0
      else if starts_with ''/backend/migrations/'' t then 1
      else if starts_with ''/backend/tests/'' t then 2
      else if starts_with ''/backend/src/controllers/'' t then 3
      else if starts_with ''/backend/src/routes/'' t then 4
      else if starts_with ''/frontend/src/app/features/'' t then 5
      else 6)"

definition root_prefix :: "options \<Rightarrow> string" where
  "root_prefix opts = (if outDir opts = ''/'' then [] else outDir opts)"

definition section_of :: "options \<Rightarrow> string \<Rightarrow> nat" where
  "section_of opts p = path_section (drop (length (root_prefix opts)) p)"

text \<open>A schema whose only entity is called \<open>index\<close>, and the files rendered once per run.\<close>

definition index_schema :: schema where
  "index_schema = blog_schema\<lparr>entities := Some [\<lparr>name = ''index'', tableName = ''indexes''\<rparr>]\<rparr>"

definition fixed_files :: "options \<Rightarrow> schema \<Rightarrow> render_call list" where
  "fixed_files opts sch =
     root_files opts sch @ backend_files opts sch @ graphql_files opts sch
     @ frontend_files opts sch @ admin_files opts sch"

section \<open>Properties of the naming helpers\<close>

lemma of_char_lt_256: "(of_char c :: nat) < 256"
  by (metis of_char_mod_256 mod_less_divisor zero_less_numeral)

lemma of_char_sub32: "(of_char (char_of (of_char c - 32 :: nat)) :: nat) = of_char c - 32"
proof -
  have "(of_char c :: nat) - 32 < 256" using of_char_lt_256[of c] by arith
  then show ?thesis by (simp add: of_char_of)
qed

lemma lower_of_upper:
  assumes "is_lower d"
  shows "lower_unit (toUpperCase_word d) = d" and "is_upper (toUpperCase_word d)"
proof -
  let ?n = "of_char d :: nat"
  from assms have r: "97 \<le> ?n" "?n \<le> 122" by (simp_all add: is_lower_def)
  have u: "toUpperCase_word d = char_of (?n - 32)" using assms by (simp add: toUpperCase_word_def)
  have v: "(of_char (toUpperCase_word d) :: nat) = ?n - 32" by (simp only: u of_char_sub32)
  from r have w: "65 \<le> ?n - 32" "?n - 32 \<le> 90" "?n - 32 + 32 = ?n" by arith+
  from w v show "is_upper (toUpperCase_word d)" by (simp add: is_upper_def)
  from w v show "lower_unit (toUpperCase_word d) = d"
    by (simp add: lower_unit_def Let_def)
qed

lemma lower_unit_lower: "is_lower c \<Longrightarrow> lower_unit c = c"
  by (simp add: is_lower_def lower_unit_def Let_def)

lemma upper_word_id: "\<not> is_lower c \<Longrightarrow> toUpperCase_word c = c"
  by (simp add: toUpperCase_word_def)

lemma hyphen_classes:
  "\<not> is_upper CHR ''-''" "\<not> is_word CHR ''-''" "\<not> is_lower CHR ''-''"
  "lower_unit CHR ''-'' = CHR ''-''"
  by (simp_all add: is_upper_def is_word_def is_lower_def is_digit_def lower_unit_def Let_def)

lemma lower_not_upper: "is_lower c \<Longrightarrow> \<not> is_upper c"
  by (simp add: is_lower_def is_upper_def)

lemma toKebab_Nil: "toKebab [] = []"
  by (simp add: toKebab_def hyphenate_def toLowerCase_def)

lemma toKebab_Cons:
  "toKebab (c # cs) =
     (if is_upper c then [CHR ''-'', lower_unit c] else [lower_unit c]) @ toKebab cs"
  by (simp add: toKebab_def hyphenate_def toLowerCase_def hyphen_classes)

lemma hyphens_lower_tl: "hyphens_lower (d # cs) \<Longrightarrow> hyphens_lower cs"
  by (cases cs) simp_all

lemma toKebab_pascal_scan: "hyphens_lower s \<Longrightarrow> toKebab (pascal_scan s) = toKebab s"
proof (induction s rule: pascal_scan.induct)
  case 1
  show ?case by simp
next
  case (2 c)
  show ?case by simp
next
  case (3 c d cs)
  show ?case
  proof (cases "c = CHR ''-'' \<and> is_word d")
    case True
    with "3.prems" have low: "is_lower d" by simp
    from "3.prems" have "hyphens_lower cs" by (auto dest: hyphens_lower_tl)
    with "3.IH"(1) True have "toKebab (pascal_scan cs) = toKebab cs" by simp
    with True low show ?thesis
      by (simp add: toKebab_Cons lower_of_upper lower_unit_lower lower_not_upper hyphen_classes)
  next
    case False
    from "3.prems" have "hyphens_lower (d # cs)" by simp
    with "3.IH"(2) False have ih: "toKebab (pascal_scan (d # cs)) = toKebab (d # cs)" by simp
    from False have "pascal_scan (c # d # cs) = c # pascal_scan (d # cs)" by auto
    then have "toKebab (pascal_scan (c # d # cs)) = toKebab (c # pascal_scan (d # cs))"
      by (rule arg_cong)
    also have "\<dots> = toKebab (c # d # cs)"
      by (simp only: toKebab_Cons [of c] ih)
    finally show ?thesis .
  qed
qed

lemma upper_word_not_hyphen: "is_word d \<Longrightarrow> toUpperCase_word d \<noteq> CHR ''-''"
proof (cases "is_lower d")
  case True
  then have "is_upper (toUpperCase_word d)" by (rule lower_of_upper)
  then show ?thesis using hyphen_classes(1) by auto
next
  case False
  assume "is_word d"
  with False show ?thesis using hyphen_classes(2) by (auto simp: upper_word_id)
qed

lemma upper_word_changes: "is_lower c \<Longrightarrow> toUpperCase_word c \<noteq> c"
  using lower_of_upper(2) [of c] lower_not_upper [of c] by auto

lemma toPascal_keeps_head:
  assumes "keeps_head (c # cs)"
  shows "toPascal (c # cs) = c # pascal_scan cs"
proof (cases "is_word c")
  case True
  with assms have "toUpperCase_word c = c" by (simp add: keeps_head_def toPascal_def)
  with True show ?thesis by (simp add: toPascal_def)
next
  case False
  then have p: "toPascal (c # cs) = pascal_scan (c # cs)" by (simp add: toPascal_def)
  show ?thesis
  proof (cases cs)
    case Nil
    with p show ?thesis by simp
  next
    case (Cons d ds)
    show ?thesis
    proof (cases "c = CHR ''-'' \<and> is_word d")
      case True
      with assms p Cons have "toUpperCase_word d = CHR ''-''" by (simp add: keeps_head_def)
      with True upper_word_not_hyphen [of d] show ?thesis by simp
    next
      case False
      with p Cons show ?thesis by auto
    qed
  qed
qed

lemma keeps_head_iff:
  "keeps_head s \<longleftrightarrow>
     (case s of [] \<Rightarrow> True
      | c # cs \<Rightarrow> \<not> is_lower c
          \<and> \<not> (c = CHR ''-'' \<and> (case cs of [] \<Rightarrow> False | d # _ \<Rightarrow> is_word d)))"
proof (cases s)
  case Nil
  then show ?thesis by (simp add: keeps_head_def toPascal_def)
next
  case (Cons c cs)
  show ?thesis
  proof
    assume k: "keeps_head s"
    have "\<not> is_lower c"
    proof
      assume l: "is_lower c"
      then have "is_word c" by (simp add: is_word_def)
      with k Cons have "toUpperCase_word c = c" by (simp add: keeps_head_def toPascal_def)
      with upper_word_changes [OF l] show False by simp
    qed
    moreover have "\<not> (c = CHR ''-'' \<and> (case cs of [] \<Rightarrow> False | d # _ \<Rightarrow> is_word d))"
    proof
      assume a: "c = CHR ''-'' \<and> (case cs of [] \<Rightarrow> False | d # _ \<Rightarrow> is_word d)"
      then obtain d ds where cs: "cs = d # ds" and w: "is_word d" by (cases cs) auto
      from a have "\<not> is_word c" by (simp add: hyphen_classes)
      with k Cons cs a w have "toUpperCase_word d = CHR ''-''"
        by (simp add: keeps_head_def toPascal_def)
      with upper_word_not_hyphen [OF w] show False by simp
    qed
    ultimately show "case s of [] \<Rightarrow> True
      | c # cs \<Rightarrow> \<not> is_lower c
          \<and> \<not> (c = CHR ''-'' \<and> (case cs of [] \<Rightarrow> False | d # _ \<Rightarrow> is_word d))"
      using Cons by simp
  next
    assume "case s of [] \<Rightarrow> True
      | c # cs \<Rightarrow> \<not> is_lower c
          \<and> \<not> (c = CHR ''-'' \<and> (case cs of [] \<Rightarrow> False | d # _ \<Rightarrow> is_word d))"
    with Cons have nl: "\<not> is_lower c"
      and nh: "\<not> (c = CHR ''-'' \<and> (case cs of [] \<Rightarrow> False | d # _ \<Rightarrow> is_word d))" by simp_all
    show "keeps_head s"
    proof (cases "is_word c")
      case True
      with nl Cons show ?thesis by (simp add: keeps_head_def toPascal_def upper_word_id)
    next
      case False
      with nh Cons show ?thesis
        by (cases cs) (auto simp: keeps_head_def toPascal_def)
    qed
  qed
qed

lemma toKebab_spec_Cons: "toKebab_spec (c # cs) = lower_unit c # toKebab cs"
  by (simp add: toKebab_spec_def toKebab_def toLowerCase_def)

text \<open>
  Claim C2: for every non-empty entity name, \<open>toKebab\<close> puts a hyphen before every
  upper-case character except a leading one and lower-cases the string, so that the
  frontend artifacts of the entity \<open>Post\<close> lie under a feature directory \<open>post\<close>.
  The script puts the hyphen before a leading capital too: for \<open>Post\<close> it yields
  \<open>-post\<close>, and the feature directory is \<open>-post\<close>.
\<close>

theorem toKebab_Post:
  "toKebab ''Post'' = ''-post''
   \<and> featurePath blog_options \<lparr>name = ''Post'', tableName = ''posts''\<rparr>
       = ''/work/my-app/frontend/src/app/features/-post''"
  by code_simp

text \<open>
  Claim C3, as stated: \<open>toKebab (toPascal n) = toKebab n\<close> for every non-empty entity
  name \<open>n\<close>. It fails for \<open>Blog-Post\<close> by the design of the two helpers: \<open>toPascal\<close>
  drops the hyphen before \<open>P\<close>, so the round trip has one hyphen there, while \<open>toKebab\<close>
  of the name keeps that hyphen and puts a second one before \<open>P\<close>.
\<close>

theorem kebab_of_pascal_counterexample:
  "toKebab (toPascal ''Blog-Post'') \<noteq> toKebab ''Blog-Post''"
  by code_simp

text \<open>
  Claim C3, amended: \<open>toKebab (toPascal n) = toKebab n\<close> for every name \<open>n\<close> whose first
  character \<open>toPascal\<close> leaves in place and in which every hyphen that is followed by a
  word character is followed by a lower-case ASCII letter; this covers every name already
  in pascal case. Names that \<open>toPascal\<close> changes at the head are left out.
\<close>

theorem kebab_of_pascal:
  assumes "keeps_head s" and "hyphens_lower s"
  shows "toKebab (toPascal s) = toKebab s"
proof (cases s)
  case Nil
  then show ?thesis by (simp add: toPascal_def)
next
  case (Cons c cs)
  with assms(1) have "toPascal s = c # pascal_scan cs" by (simp add: toPascal_keeps_head)
  moreover from assms(2) Cons have "hyphens_lower cs" by (auto dest: hyphens_lower_tl)
  then have "toKebab (pascal_scan cs) = toKebab cs" by (rule toKebab_pascal_scan)
  ultimately show ?thesis using Cons by (simp add: toKebab_Cons)
qed

theorem kebab_of_pascal_witness:
  "keeps_head ''Blog-post'' \<and> hyphens_lower ''Blog-post''
   \<and> toPascal ''Blog-post'' = ''BlogPost''
   \<and> toKebab (toPascal ''Blog-post'') = toKebab ''Blog-post''"
proof -
  have a: "keeps_head ''Blog-post''" by code_simp
  have b: "hyphens_lower ''Blog-post''" by code_simp
  have c: "toPascal ''Blog-post'' = ''BlogPost''" by code_simp
  from a b c kebab_of_pascal [OF a b] show ?thesis by simp
qed

text \<open>
  Neither statement turns on what \<open>toKebab\<close> does with a leading capital: with the helper
  as the specification words it, the round trip fails for \<open>Blog-Post\<close> as well and holds
  on the same names.
\<close>

lemma kebab_spec_of_pascal:
  assumes "keeps_head s" and "hyphens_lower s"
  shows "toKebab_spec (toPascal s) = toKebab_spec s"
proof (cases s)
  case Nil
  then show ?thesis by (simp add: toPascal_def)
next
  case (Cons c cs)
  with assms(1) have "toPascal s = c # pascal_scan cs" by (simp add: toPascal_keeps_head)
  moreover from assms(2) Cons have "hyphens_lower cs" by (auto dest: hyphens_lower_tl)
  then have "toKebab (pascal_scan cs) = toKebab cs" by (rule toKebab_pascal_scan)
  ultimately show ?thesis using Cons by (simp add: toKebab_spec_Cons)
qed

lemma spec_worded_examples:
  "toKebab_spec (toPascal ''Blog-Post'') \<noteq> toKebab_spec ''Blog-Post''"
  "toKebab_spec ''Post'' = ''post''"
  by code_simp+

text \<open>
  Claim C10: \<open>toPascal\<close> and \<open>toKebab\<close> have no failing branch on a string and map the
  empty string to the empty string; \<open>toCamel\<close> fails on the empty string, where it reads
  the first character, and on no other string.
\<close>

theorem helpers_on_empty:
  "toPascal [] = [] \<and> toKebab [] = [] \<and> toCamel [] = Inl TypeError
   \<and> (\<forall>c cs. toCamel (c # cs) = Inr (lower_unit c # drop 1 (toPascal (c # cs))))"
  by (simp add: toPascal_def toKebab_Nil toCamel_def)

section \<open>Properties of the generator\<close>

subsection \<open>The plan, section by section\<close>

lemma rendered_append: "rendered (xs @ ys) = rendered xs @ rendered ys"
  by (induction xs rule: rendered.induct) simp_all

lemma rendered_Render: "rendered (map Render rs) = rs"
  by (induction rs) simp_all

lemma rendered_EnsureDir: "rendered (map EnsureDir ds) = []"
  by (induction ds) simp_all

lemma rendered_features_loop:
  "rendered (features_loop opts ents) = concat (map (feature_module opts) ents)"
  by (induction ents) (simp_all add: rendered_append rendered_Render)

lemma rendered_features_loop_sib:
  "rendered (features_loop_sib opts sch ents) = concat (map (feature_module_sib opts sch) ents)"
  by (induction ents) (simp_all add: rendered_append rendered_Render)

lemma rendered_done_log: "rendered (done_log opts sch) = []"
  by (simp add: done_log_def)

lemma plan_sections:
  "plan opts sch clock =
     root_files opts sch @ backend_files opts sch
     @ models_loop opts sch clock 0 (entities_of sch)
     @ controllers_loop opts sch (entities_of sch)
     @ routes_index opts sch @ graphql_files opts sch @ frontend_files opts sch
     @ concat (map (feature_module opts) (entities_of sch))
     @ admin_files opts sch"
  by (simp add: plan_def generate_def rendered_append rendered_Render rendered_EnsureDir
      rendered_features_loop rendered_done_log)

lemma plan_sib_sections:
  "plan_sib opts sch clock =
     root_files_sib opts sch @ backend_files_sib opts sch
     @ models_loop_sib opts sch clock 0 (entities_of sch)
     @ controllers_loop_sib opts sch (entities_of sch)
     @ routes_index_sib opts sch @ graphql_files_sib opts sch @ frontend_files_sib opts sch
     @ concat (map (feature_module_sib opts sch) (entities_of sch))
     @ admin_files_sib opts sch"
  by (simp add: plan_sib_def generate_sib_def rendered_append rendered_Render rendered_EnsureDir
      rendered_features_loop_sib rendered_done_log)

lemma migrations_append: "migrations (xs @ ys) = migrations xs @ migrations ys"
  by (simp add: migrations_def)

lemma migrations_fixed:
  "migrations (root_files opts sch) = []" "migrations (backend_files opts sch) = []"
  "migrations (routes_index opts sch) = []" "migrations (graphql_files opts sch) = []"
  "migrations (frontend_files opts sch) = []" "migrations (admin_files opts sch) = []"
  by (simp_all add: migrations_def root_files_def backend_files_def routes_index_def
      graphql_files_def frontend_files_def admin_files_def render_def)

lemma migrations_fixed_sib:
  "migrations (root_files_sib opts sch) = []" "migrations (backend_files_sib opts sch) = []"
  "migrations (routes_index_sib opts sch) = []" "migrations (graphql_files_sib opts sch) = []"
  "migrations (frontend_files_sib opts sch) = []" "migrations (admin_files_sib opts sch) = []"
  by (simp_all add: migrations_def root_files_sib_def backend_files_sib_def routes_index_sib_def
      graphql_files_sib_def frontend_files_sib_def admin_files_sib_def render_def)

lemma migrations_controllers: "migrations (controllers_loop opts sch ents) = []"
  by (induction ents) (simp_all add: migrations_def render_def Let_def)

lemma migrations_controllers_sib: "migrations (controllers_loop_sib opts sch ents) = []"
  by (induction ents) (simp_all add: migrations_def render_def Let_def)

lemma migrations_features: "migrations (concat (map (feature_module opts) ents)) = []"
  by (induction ents) (simp_all add: migrations_def feature_module_def render_def Let_def)

lemma migrations_features_sib: "migrations (concat (map (feature_module_sib opts sch) ents)) = []"
  by (induction ents) (simp_all add: migrations_def feature_module_sib_def render_def Let_def)

lemma migrations_models:
  "map dest (migrations (models_loop opts sch clock i ents))
     = map (migration_dest opts clock) (enumerate i ents)"
  by (induction ents arbitrary: i) (simp_all add: migrations_def render_def migration_dest_def)

lemma migrations_models_sib:
  "map dest (migrations (models_loop_sib opts sch clock i ents))
     = map (migration_dest opts clock) (enumerate i ents)"
  by (induction ents arbitrary: i) (simp_all add: migrations_def render_def migration_dest_def)

lemma migrations_plan:
  "map dest (migrations (plan opts sch clock))
     = map (migration_dest opts clock) (enumerate 0 (entities_of sch))"
  by (simp add: plan_sections migrations_append migrations_fixed migrations_controllers
      migrations_features migrations_models)

lemma migrations_plan_sib:
  "map dest (migrations (plan_sib opts sch clock))
     = map (migration_dest opts clock) (enumerate 0 (entities_of sch))"
  by (simp add: plan_sib_sections migrations_append migrations_fixed_sib migrations_controllers_sib
      migrations_features_sib migrations_models_sib)


lemma of_char_digit_char: "d < 10 \<Longrightarrow> (of_char (digit_char d) :: nat) = 48 + d"
  by (simp add: digit_char_def of_char_of)

lemma is_digit_digit_char: "d < 10 \<Longrightarrow> is_digit (digit_char d)"
  by (simp add: is_digit_def of_char_digit_char)

lemma digit_value_digit_char: "d < 10 \<Longrightarrow> digit_value (digit_char d) = d"
  by (simp add: digit_value_def of_char_digit_char)

lemma read_nat_snoc: "read_nat (s @ [c]) = 10 * read_nat s + digit_value c"
  by (simp add: read_nat_def)

lemma show_nat_digits: "\<forall>c \<in> set (show_nat n). is_digit c"
proof (induction n rule: show_nat.induct)
  case (1 n)
  show ?case
  proof (cases "n < 10")
    case True
    then show ?thesis by (subst show_nat.simps) (simp add: is_digit_digit_char)
  next
    case False
    with 1 have "\<forall>c \<in> set (show_nat (n div 10)). is_digit c" by simp
    with False show ?thesis by (subst show_nat.simps) (simp add: is_digit_digit_char)
  qed
qed

lemma read_show_nat: "read_nat (show_nat n) = n"
proof (induction n rule: show_nat.induct)
  case (1 n)
  show ?case
  proof (cases "n < 10")
    case True
    then show ?thesis
      by (subst show_nat.simps) (simp add: read_nat_def digit_value_digit_char)
  next
    case False
    with 1 have "read_nat (show_nat (n div 10)) = n div 10" by simp
    with False show ?thesis
      by (subst show_nat.simps) (simp add: read_nat_snoc digit_value_digit_char)
  qed
qed

lemma takeWhile_digits: "\<not> is_digit c \<Longrightarrow> takeWhile is_digit (show_nat n @ c # rest) = show_nat n"
  using show_nat_digits [of n] by (simp add: takeWhile_append2)

lemma hyphen_not_digit: "\<not> is_digit CHR ''-''"
  by (simp add: is_digit_def)

lemma embedded_timestamp_migration:
  "embedded_timestamp opts (migration_dest opts clock ie) = clock (fst ie)"
proof -
  have "drop (length (BACK opts @ ''/migrations/'')) (migration_dest opts clock ie)
          = show_nat (clock (fst ie)) @ CHR ''-'' # ''create-'' @ tableName (snd ie) @ ''.ts''"
    by (simp add: migration_dest_def)
  then show ?thesis
    by (simp only: embedded_timestamp_def takeWhile_digits [OF hyphen_not_digit] read_show_nat)
qed

lemma map_fst_enumerate: "map fst (enumerate i xs) = [i..<i + length xs]"
  by (simp add: enumerate_eq_zip)

lemma timestamps_of_enumerate:
  "map (embedded_timestamp opts) (map (migration_dest opts clock) (enumerate 0 ents))
     = map clock [0..<length ents]"
proof -
  have "map (embedded_timestamp opts) (map (migration_dest opts clock) (enumerate 0 ents))
          = map (clock \<circ> fst) (enumerate 0 ents)"
    by (simp add: embedded_timestamp_migration comp_def)
  also have "\<dots> = map clock (map fst (enumerate 0 ents))" by (simp only: map_map)
  finally have "map (embedded_timestamp opts) (map (migration_dest opts clock) (enumerate 0 ents))
                  = map clock (map fst (enumerate 0 ents))" .
  moreover have "map fst (enumerate 0 ents) = [0..<length ents]"
    by (simp add: map_fst_enumerate)
  ultimately show ?thesis by (simp only:)
qed

subsection \<open>Migration entries\<close>

text \<open>
  Claim C1, as stated: the timestamps embedded in the migration paths of a run are
  strictly increasing, even when two entities are generated within the same millisecond.
  With two entities and a clock that returns the same millisecond twice they are equal.
\<close>

theorem same_millisecond_counterexample:
  "\<not> sorted_wrt (<)
       (map (embedded_timestamp blog_options)
          (map dest (migrations (plan blog_options two_entities same_millisecond))))"
proof -
  have "map (embedded_timestamp blog_options)
          (map dest (migrations (plan blog_options two_entities same_millisecond)))
        = map same_millisecond [0..<length (entities_of two_entities)]"
    by (simp only: migrations_plan timestamps_of_enumerate)
  moreover have "length (entities_of two_entities) = Suc (Suc 0)"
    by (simp add: two_entities_def blog_schema_def entities_of_def default_to_def)
  ultimately show ?thesis by (simp add: same_millisecond_def)
qed

text \<open>
  Claim C1, amended: for a schema with \<open>k\<close> entities both copies of the script emit
  exactly \<open>k\<close> migration entries, one per entity in schema order; the path of entry \<open>i\<close>
  is \<open>BACK/migrations/<t>-create-<tableName>.ts\<close> where \<open>t\<close> is what \<open>Date.now()\<close>
  returned in pass \<open>i\<close> of the loop. The embedded timestamps are the clock readings
  themselves, hence strictly increasing exactly when the readings are.
\<close>

theorem migration_entries:
  "length (migrations (plan opts sch clock)) = length (entities_of sch)
   \<and> map dest (migrations (plan opts sch clock))
       = map (migration_dest opts clock) (enumerate 0 (entities_of sch))
   \<and> map (embedded_timestamp opts) (map dest (migrations (plan opts sch clock)))
       = map clock [0..<length (entities_of sch)]
   \<and> length (migrations (plan_sib opts sch clock)) = length (entities_of sch)
   \<and> map dest (migrations (plan_sib opts sch clock))
       = map (migration_dest opts clock) (enumerate 0 (entities_of sch))
   \<and> map (embedded_timestamp opts) (map dest (migrations (plan_sib opts sch clock)))
       = map clock [0..<length (entities_of sch)]"
proof -
  have a: "map dest (migrations (plan opts sch clock))
             = map (migration_dest opts clock) (enumerate 0 (entities_of sch))"
    by (rule migrations_plan)
  have b: "map dest (migrations (plan_sib opts sch clock))
             = map (migration_dest opts clock) (enumerate 0 (entities_of sch))"
    by (rule migrations_plan_sib)
  from a have la: "length (migrations (plan opts sch clock)) = length (entities_of sch)"
    by (metis length_map length_enumerate)
  from b have lb: "length (migrations (plan_sib opts sch clock)) = length (entities_of sch)"
    by (metis length_map length_enumerate)
  show ?thesis
    by (simp only: la lb a b timestamps_of_enumerate simp_thms)
qed

subsection \<open>Feature flags\<close>

text \<open>
  Claim C4, as stated: a flag whose schema field is \<open>null\<close> resolves to the command-line
  default. A destructuring default replaces \<open>undefined\<close> only: with \<open>docker: null\<close> the
  constant \<open>docker\<close> is \<open>null\<close>, not the default \<open>true\<close>.
\<close>

theorem flag_null_counterexample:
  "r_docker (resolve blog_options (blog_schema\<lparr>docker := Some JNull\<rparr>))
     \<noteq> JBool (enableDocker blog_options)"
  by (simp add: resolve_def default_to_def blog_schema_def blog_options_def program_defaults_def)

text \<open>
  Claim C4, amended: for each of the five flags the resolved value is the command-line
  default when the schema field is absent, and the schema field itself when it is present,
  be it \<open>true\<close>, \<open>false\<close> or \<open>null\<close>.
\<close>

theorem resolve_flags:
  "(graphql sch = None \<longrightarrow> r_graphql (resolve opts sch) = JBool (enableGraphQL opts))
   \<and> (docker sch = None \<longrightarrow> r_docker (resolve opts sch) = JBool (enableDocker opts))
   \<and> (ci sch = None \<longrightarrow> r_ci (resolve opts sch) = JBool (enableCI opts))
   \<and> (terraform sch = None \<longrightarrow> r_terraform (resolve opts sch) = JBool (enableTerraform opts))
   \<and> (adminPanel sch = None \<longrightarrow> r_adminPanel (resolve opts sch) = JBool (enableAdmin opts))
   \<and> (\<forall>v. (graphql sch = Some v \<longrightarrow> r_graphql (resolve opts sch) = v)
        \<and> (docker sch = Some v \<longrightarrow> r_docker (resolve opts sch) = v)
        \<and> (ci sch = Some v \<longrightarrow> r_ci (resolve opts sch) = v)
        \<and> (terraform sch = Some v \<longrightarrow> r_terraform (resolve opts sch) = v)
        \<and> (adminPanel sch = Some v \<longrightarrow> r_adminPanel (resolve opts sch) = v))"
  by (simp add: resolve_def default_to_def)

theorem resolve_flags_witness:
  "graphql (blog_schema\<lparr>docker := Some (JBool False), ci := Some JNull\<rparr>) = None
   \<and> docker (blog_schema\<lparr>docker := Some (JBool False), ci := Some JNull\<rparr>) = Some (JBool False)
   \<and> ci (blog_schema\<lparr>docker := Some (JBool False), ci := Some JNull\<rparr>) = Some JNull
   \<and> r_graphql (resolve blog_options (blog_schema\<lparr>docker := Some (JBool False), ci := Some JNull\<rparr>))
       = JBool False
   \<and> r_docker (resolve blog_options (blog_schema\<lparr>docker := Some (JBool False), ci := Some JNull\<rparr>))
       = JBool False
   \<and> r_ci (resolve blog_options (blog_schema\<lparr>docker := Some (JBool False), ci := Some JNull\<rparr>))
       = JNull"
  using resolve_flags [of "blog_schema\<lparr>docker := Some (JBool False), ci := Some JNull\<rparr>" blog_options]
  by (simp add: blog_schema_def blog_options_def program_defaults_def)

subsection \<open>Loading the schema\<close>

text \<open>
  Claim C8: when the schema path does not exist or its content does not parse, the
  process writes a diagnostic to the error stream and ends with a non-zero exit code
  before \<open>fs.emptyDirSync\<close>: no event of the run clears, creates or writes anything
  under the output directory.
\<close>

theorem load_failure_leaves_output:
  assumes "files w (schemaPath opts) = None
           \<or> (\<exists>content err. files w (schemaPath opts) = Some content \<and> parse content = Inl err)"
  shows "exit_code (main parse w opts) \<noteq> 0
         \<and> list_ex on_error_stream (trace (main parse w opts))
         \<and> \<not> list_ex touches_output (trace (main parse w opts))"
  using assms by (auto simp: main_def)

theorem load_failure_leaves_output_witness:
  "exit_code (main reject no_schema_world blog_options) \<noteq> 0
   \<and> list_ex on_error_stream (trace (main reject no_schema_world blog_options))
   \<and> \<not> list_ex touches_output (trace (main reject no_schema_world blog_options))
   \<and> exit_code (main reject broken_schema_world blog_options) \<noteq> 0
   \<and> list_ex on_error_stream (trace (main reject broken_schema_world blog_options))
   \<and> \<not> list_ex touches_output (trace (main reject broken_schema_world blog_options))"
proof -
  have h1: "files no_schema_world (schemaPath blog_options) = None
            \<or> (\<exists>content err. files no_schema_world (schemaPath blog_options) = Some content
                  \<and> reject content = Inl err)"
    by (simp add: no_schema_world_def)
  have h2: "files broken_schema_world (schemaPath blog_options) = None
            \<or> (\<exists>content err. files broken_schema_world (schemaPath blog_options) = Some content
                  \<and> reject content = Inl err)"
    by (simp add: broken_schema_world_def blog_options_def program_defaults_def reject_def)
  from load_failure_leaves_output [OF h1] load_failure_leaves_output [OF h2]
  show ?thesis by simp
qed


subsection \<open>Which decisions read which flag\<close>

lemmas section_defs =
  root_files_def backend_files_def routes_index_def graphql_files_def frontend_files_def
  admin_files_def feature_module_def featurePath_def render_def Let_def

lemmas input_defs =
  blog_schema_def blog_options_def program_defaults_def entities_of_def default_to_def
  resolve_def BACK_def FRONT_def path_join_def

text \<open>
  The sibling copy reads the command-line flags only through the resolved values: two
  runs with the same resolved flags and the same output directory do the same.
\<close>

lemma models_loop_sib_resolved:
  "outDir o1 = outDir o2 \<Longrightarrow> models_loop_sib o1 sch clock i ents = models_loop_sib o2 sch clock i ents"
  by (induction ents arbitrary: i) (simp_all add: BACK_def)

lemma controllers_loop_sib_resolved:
  "outDir o1 = outDir o2 \<Longrightarrow> controllers_loop_sib o1 sch ents = controllers_loop_sib o2 sch ents"
  by (induction ents) (simp_all add: BACK_def)

lemma features_loop_sib_resolved:
  "outDir o1 = outDir o2 \<Longrightarrow> features_loop_sib o1 sch ents = features_loop_sib o2 sch ents"
  by (induction ents) (simp_all add: feature_module_sib_def featurePath_def FRONT_def)

lemma generate_sib_resolved:
  assumes "resolve o1 sch = resolve o2 sch" and "outDir o1 = outDir o2"
  shows "generate_sib o1 sch clock = generate_sib o2 sch clock"
  using assms
  by (simp add: generate_sib_def dirs_sib_def root_files_sib_def backend_files_sib_def
      routes_index_sib_def graphql_files_sib_def frontend_files_sib_def admin_files_sib_def
      done_log_def BACK_def FRONT_def
      models_loop_sib_resolved [OF assms(2)] controllers_loop_sib_resolved [OF assms(2)]
      features_loop_sib_resolved [OF assms(2)])

text \<open>
  Claim C5: every gating decision, for the skeleton directories as for the generated
  files, reads the resolved flag, never the raw command-line flag. In generator.js the
  directories, the GraphQL files and the admin-panel files are gated on the raw flags:
  with \<open>graphql: true\<close>, \<open>terraform: false\<close> and \<open>adminPanel: false\<close> in the schema and
  the default command line, the \<open>terraform\<close> directory is created though no terraform
  file is rendered, the admin pages are created and rendered though \<open>adminPanel\<close> is
  false, and no GraphQL file is rendered though \<open>graphql\<close> is true.
\<close>

theorem raw_flag_gating:
  "\<not> truthy (r_terraform (resolve blog_options overriding_schema))
   \<and> ''/work/my-app/terraform'' \<in> set (dirs blog_options)
   \<and> ''/work/my-app/terraform/main.tf''
        \<notin> set (map dest (plan blog_options overriding_schema same_millisecond))
   \<and> \<not> truthy (r_adminPanel (resolve blog_options overriding_schema))
   \<and> ''/work/my-app/frontend/src/app/pages'' \<in> set (dirs blog_options)
   \<and> ''/work/my-app/frontend/src/app/pages/pages.module.ts''
        \<in> set (map dest (plan blog_options overriding_schema same_millisecond))
   \<and> truthy (r_graphql (resolve blog_options overriding_schema))
   \<and> ''/work/my-app/backend/src/graphql/typeDefs.ts''
        \<notin> set (map dest (plan blog_options overriding_schema same_millisecond))"
  by (simp add: plan_sections section_defs input_defs overriding_schema_def dirs_def)

subsection \<open>Scenario A\<close>

lemma scenario_A_files:
  "map dest (plan (program_defaults sp od) blog_schema clock) =
     [path_join od ''backend'' @ ''/Dockerfile'',
      path_join od ''frontend'' @ ''/Dockerfile'',
      od @ ''/docker-compose.yml'',
      od @ ''/.github/workflows/ci.yml'',
      od @ ''/terraform/main.tf'',
      od @ ''/terraform/variables.tf'',
      od @ ''/terraform/outputs.tf'',
      od @ ''/terraform/terraform.tfvars.example'',
      path_join od ''backend'' @ ''/package.json'',
      path_join od ''backend'' @ ''/tsconfig.json'',
      path_join od ''backend'' @ ''/.env.example'',
      path_join od ''backend'' @ ''/src/server.ts'',
      path_join od ''backend'' @ ''/src/config/database.ts'',
      path_join od ''backend'' @ ''/src/middleware/auth.ts'',
      path_join od ''backend'' @ ''/src/middleware/upload.ts'',
      path_join od ''backend'' @ ''/src/middleware/error.ts'',
      path_join od ''backend'' @ ''/src/models/Post.ts'',
      path_join od ''backend'' @ ''/migrations/'' @ show_nat (clock 0) @ ''-create-posts.ts'',
      path_join od ''backend'' @ ''/tests/Post.test.ts'',
      path_join od ''backend'' @ ''/src/controllers/PostController.ts'',
      path_join od ''backend'' @ ''/src/routes/'' @ toKebab ''Post'' @ ''.ts'',
      path_join od ''backend'' @ ''/src/routes/index.ts'',
      path_join od ''frontend'' @ ''/package.json'',
      path_join od ''frontend'' @ ''/angular.json'',
      path_join od ''frontend'' @ ''/tsconfig.json'',
      path_join od ''frontend'' @ ''/src/index.html'',
      path_join od ''frontend'' @ ''/src/main.ts'',
      path_join od ''frontend'' @ ''/src/polyfills.ts'',
      path_join od ''frontend'' @ ''/src/styles.scss'',
      path_join od ''frontend'' @ ''/src/app/app.module.ts'',
      path_join od ''frontend'' @ ''/src/app/app-routing.module.ts'',
      path_join od ''frontend'' @ ''/src/app/app.component.html'',
      path_join od ''frontend'' @ ''/src/app/app.component.ts'',
      path_join od ''frontend'' @ ''/src/app/core/auth/auth.service.ts'',
      path_join od ''frontend'' @ ''/src/app/core/auth/jwt.interceptor.ts'',
      path_join od ''frontend'' @ ''/src/app/core/auth/auth.guard.ts'',
      path_join od ''frontend'' @ ''/src/app/features/'' @ toKebab ''Post'' @ ''/'' @ toKebab ''Post'' @ ''.module.ts'',
      path_join od ''frontend'' @ ''/src/app/features/'' @ toKebab ''Post'' @ ''/'' @ toKebab ''Post'' @ ''.service.ts'',
      path_join od ''frontend'' @ ''/src/app/features/'' @ toKebab ''Post'' @ ''/'' @ toKebab ''Post'' @ ''-list.component.html'',
      path_join od ''frontend'' @ ''/src/app/features/'' @ toKebab ''Post'' @ ''/'' @ toKebab ''Post'' @ ''-list.component.ts'',
      path_join od ''frontend'' @ ''/src/app/features/'' @ toKebab ''Post'' @ ''/'' @ toKebab ''Post'' @ ''-form.component.html'',
      path_join od ''frontend'' @ ''/src/app/features/'' @ toKebab ''Post'' @ ''/'' @ toKebab ''Post'' @ ''-form.component.ts'',
      path_join od ''frontend'' @ ''/src/app/@theme/@theme.module.ts'',
      path_join od ''frontend'' @ ''/src/app/@theme/styles/themes.scss'',
      path_join od ''frontend'' @ ''/src/app/pages/pages.module.ts'',
      path_join od ''frontend'' @ ''/src/app/pages/dashboard/dashboard.component.html'',
      path_join od ''frontend'' @ ''/src/app/pages/dashboard/dashboard.component.ts'']"
  by (simp add: plan_sections section_defs program_defaults_def blog_schema_def entities_of_def
      default_to_def resolve_def BACK_def FRONT_def)

text \<open>
  Claim C6, as stated: with the default command line the schema of scenario A yields no
  admin-panel files. The default of \<open>--admin\<close> is \<open>true\<close>, and the dashboard component
  is rendered.
\<close>

theorem admin_default_counterexample:
  "''/work/my-app/frontend/src/app/pages/dashboard/dashboard.component.ts''
     \<in> set (map dest (plan blog_options blog_schema same_millisecond))"
  by (simp add: blog_options_def scenario_A_files path_join_def)

text \<open>
  Claim C6, amended: for the schema of scenario A with the five flags at their
  command-line defaults and no schema override, the plan is exactly the list below: the
  containerization files, the CI workflow, the infrastructure-as-code files, the backend
  fixed files, the model, migration, test, controller and route of \<open>Post\<close>, the route
  index, the frontend fixed files, the six feature files of \<open>Post\<close> and the five
  admin-panel files (the admin-dashboard default is \<open>true\<close>); it holds no GraphQL file.
\<close>

theorem scenario_A_plan:
  "map dest (plan (program_defaults sp od) blog_schema clock) =
     [path_join od ''backend'' @ ''/Dockerfile'',
      path_join od ''frontend'' @ ''/Dockerfile'',
      od @ ''/docker-compose.yml'',
      od @ ''/.github/workflows/ci.yml'',
      od @ ''/terraform/main.tf'',
      od @ ''/terraform/variables.tf'',
      od @ ''/terraform/outputs.tf'',
      od @ ''/terraform/terraform.tfvars.example'',
      path_join od ''backend'' @ ''/package.json'',
      path_join od ''backend'' @ ''/tsconfig.json'',
      path_join od ''backend'' @ ''/.env.example'',
      path_join od ''backend'' @ ''/src/server.ts'',
      path_join od ''backend'' @ ''/src/config/database.ts'',
      path_join od ''backend'' @ ''/src/middleware/auth.ts'',
      path_join od ''backend'' @ ''/src/middleware/upload.ts'',
      path_join od ''backend'' @ ''/src/middleware/error.ts'',
      path_join od ''backend'' @ ''/src/models/Post.ts'',
      path_join od ''backend'' @ ''/migrations/'' @ show_nat (clock 0) @ ''-create-posts.ts'',
      path_join od ''backend'' @ ''/tests/Post.test.ts'',
      path_join od ''backend'' @ ''/src/controllers/PostController.ts'',
      path_join od ''backend'' @ ''/src/routes/'' @ toKebab ''Post'' @ ''.ts'',
      path_join od ''backend'' @ ''/src/routes/index.ts'',
      path_join od ''frontend'' @ ''/package.json'',
      path_join od ''frontend'' @ ''/angular.json'',
      path_join od ''frontend'' @ ''/tsconfig.json'',
      path_join od ''frontend'' @ ''/src/index.html'',
      path_join od ''frontend'' @ ''/src/main.ts'',
      path_join od ''frontend'' @ ''/src/polyfills.ts'',
      path_join od ''frontend'' @ ''/src/styles.scss'',
      path_join od ''frontend'' @ ''/src/app/app.module.ts'',
      path_join od ''frontend'' @ ''/src/app/app-routing.module.ts'',
      path_join od ''frontend'' @ ''/src/app/app.component.html'',
      path_join od ''frontend'' @ ''/src/app/app.component.ts'',
      path_join od ''frontend'' @ ''/src/app/core/auth/auth.service.ts'',
      path_join od ''frontend'' @ ''/src/app/core/auth/jwt.interceptor.ts'',
      path_join od ''frontend'' @ ''/src/app/core/auth/auth.guard.ts'',
      path_join od ''frontend'' @ ''/src/app/features/'' @ toKebab ''Post'' @ ''/'' @ toKebab ''Post'' @ ''.module.ts'',
      path_join od ''frontend'' @ ''/src/app/features/'' @ toKebab ''Post'' @ ''/'' @ toKebab ''Post'' @ ''.service.ts'',
      path_join od ''frontend'' @ ''/src/app/features/'' @ toKebab ''Post'' @ ''/'' @ toKebab ''Post'' @ ''-list.component.html'',
      path_join od ''frontend'' @ ''/src/app/features/'' @ toKebab ''Post'' @ ''/'' @ toKebab ''Post'' @ ''-list.component.ts'',
      path_join od ''frontend'' @ ''/src/app/features/'' @ toKebab ''Post'' @ ''/'' @ toKebab ''Post'' @ ''-form.component.html'',
      path_join od ''frontend'' @ ''/src/app/features/'' @ toKebab ''Post'' @ ''/'' @ toKebab ''Post'' @ ''-form.component.ts'',
      path_join od ''frontend'' @ ''/src/app/@theme/@theme.module.ts'',
      path_join od ''frontend'' @ ''/src/app/@theme/styles/themes.scss'',
      path_join od ''frontend'' @ ''/src/app/pages/pages.module.ts'',
      path_join od ''frontend'' @ ''/src/app/pages/dashboard/dashboard.component.html'',
      path_join od ''frontend'' @ ''/src/app/pages/dashboard/dashboard.component.ts'']"
  by (rule scenario_A_files)

subsection \<open>The clock\<close>

lemma models_loop_clock:
  "(\<forall>j < length ents. c1 (i + j) = c2 (i + j))
   \<Longrightarrow> models_loop opts sch c1 i ents = models_loop opts sch c2 i ents"
proof (induction ents arbitrary: i)
  case Nil
  show ?case by simp
next
  case (Cons ent ents)
  from Cons.prems have "c1 i = c2 i" by force
  moreover have "\<forall>j < length ents. c1 (Suc i + j) = c2 (Suc i + j)"
  proof (intro allI impI)
    fix j assume "j < length ents"
    then have "Suc j < length (ent # ents)" by simp
    with Cons.prems have "c1 (i + Suc j) = c2 (i + Suc j)" by blast
    then show "c1 (Suc i + j) = c2 (Suc i + j)" by simp
  qed
  then have "models_loop opts sch c1 (Suc i) ents = models_loop opts sch c2 (Suc i) ents"
    by (rule Cons.IH)
  ultimately show ?case by simp
qed

lemma models_loop_src: "map src (models_loop opts sch c1 i ents) = map src (models_loop opts sch c2 i ents)"
  by (induction ents arbitrary: i) (simp_all add: render_def)

lemma models_loop_data: "map data (models_loop opts sch c1 i ents) = map data (models_loop opts sch c2 i ents)"
  by (induction ents arbitrary: i) (simp_all add: render_def)

lemma models_loop_others: "others (models_loop opts sch c1 i ents) = others (models_loop opts sch c2 i ents)"
  by (induction ents arbitrary: i) (simp_all add: others_def render_def)

text \<open>
  Claim C9, as stated: the plan is a function of the schema and the resolved flags alone.
  Two runs on the same schema and options at different times differ in the migration path.
\<close>

theorem clock_counterexample:
  "plan blog_options blog_schema same_millisecond \<noteq> plan blog_options blog_schema next_millisecond"
proof
  assume "plan blog_options blog_schema same_millisecond = plan blog_options blog_schema next_millisecond"
  then have "map (embedded_timestamp blog_options)
               (map dest (migrations (plan blog_options blog_schema same_millisecond)))
             = map (embedded_timestamp blog_options)
               (map dest (migrations (plan blog_options blog_schema next_millisecond)))"
    by simp
  then have "map same_millisecond [0..<length (entities_of blog_schema)]
             = map next_millisecond [0..<length (entities_of blog_schema)]"
    by (simp only: migrations_plan timestamps_of_enumerate)
  moreover have "length (entities_of blog_schema) = Suc 0"
    by (simp add: blog_schema_def entities_of_def default_to_def)
  ultimately show False by (simp add: same_millisecond_def next_millisecond_def)
qed

text \<open>
  Claim C9, amended: two runs on the same schema and options whose clocks agree on the
  readings taken (one per entity) yield the same ordered plan; whatever the clocks, the
  two plans have the same templates and the same contexts in the same order, and the same
  entries apart from the migration entries, whose destination paths embed the readings.
\<close>

theorem plan_clock:
  "((\<forall>i < length (entities_of sch). c1 i = c2 i) \<longrightarrow> plan opts sch c1 = plan opts sch c2)
   \<and> map src (plan opts sch c1) = map src (plan opts sch c2)
   \<and> map data (plan opts sch c1) = map data (plan opts sch c2)
   \<and> others (plan opts sch c1) = others (plan opts sch c2)"
proof (intro conjI impI)
  assume "\<forall>i < length (entities_of sch). c1 i = c2 i"
  then have "models_loop opts sch c1 0 (entities_of sch) = models_loop opts sch c2 0 (entities_of sch)"
    by (intro models_loop_clock) simp
  then show "plan opts sch c1 = plan opts sch c2" by (simp add: plan_sections)
next
  show "map src (plan opts sch c1) = map src (plan opts sch c2)"
    by (simp add: plan_sections models_loop_src [of opts sch c1 0 _ c2])
next
  show "map data (plan opts sch c1) = map data (plan opts sch c2)"
    by (simp add: plan_sections models_loop_data [of opts sch c1 0 _ c2])
next
  have "others (models_loop opts sch c1 0 (entities_of sch))
          = others (models_loop opts sch c2 0 (entities_of sch))"
    by (rule models_loop_others)
  then show "others (plan opts sch c1) = others (plan opts sch c2)"
    by (simp add: plan_sections others_def)
qed

theorem plan_clock_witness:
  "length (entities_of blog_schema) = 1
   \<and> same_millisecond 0 = late_tick 0
   \<and> same_millisecond 1 \<noteq> late_tick 1
   \<and> plan blog_options blog_schema same_millisecond = plan blog_options blog_schema late_tick"
proof -
  have n: "length (entities_of blog_schema) = 1"
    by (simp add: blog_schema_def entities_of_def default_to_def)
  have h: "\<forall>i < length (entities_of blog_schema). same_millisecond i = late_tick i"
    by (simp add: n same_millisecond_def late_tick_def)
  have d: "same_millisecond 0 = late_tick 0" "same_millisecond 1 \<noteq> late_tick 1"
    by (simp_all add: same_millisecond_def late_tick_def)
  from plan_clock [of blog_schema same_millisecond late_tick blog_options] h
  have "plan blog_options blog_schema same_millisecond = plan blog_options blog_schema late_tick"
    by blast
  with n d show ?thesis by simp
qed

subsection \<open>Destination paths\<close>

lemma BACK_root: "BACK opts = root_prefix opts @ ''/backend''"
  by (simp add: BACK_def path_join_def root_prefix_def)

lemma FRONT_root: "FRONT opts = root_prefix opts @ ''/frontend''"
  by (simp add: FRONT_def path_join_def root_prefix_def)

lemma section_of_root: "section_of opts (root_prefix opts @ t) = path_section t"
  by (simp add: section_of_def)

lemma distinct_by_key:
  "distinct xs \<longleftrightarrow> (\<forall>k. distinct (filter (\<lambda>x. f x = k) xs))"
proof
  assume "distinct xs"
  then show "\<forall>k. distinct (filter (\<lambda>x. f x = k) xs)" by simp
next
  assume "\<forall>k. distinct (filter (\<lambda>x. f x = k) xs)"
  then show "distinct xs"
  proof (induction xs)
    case Nil
    show ?case by simp
  next
    case (Cons x xs)
    from Cons.prems have "distinct (filter (\<lambda>y. f y = f x) (x # xs))" by blast
    then have "x \<notin> set xs" by simp
    moreover have "\<forall>k. distinct (filter (\<lambda>y. f y = k) xs)"
    proof
      fix k
      from Cons.prems have "distinct (filter (\<lambda>y. f y = k) (x # xs))" by blast
      then show "distinct (filter (\<lambda>y. f y = k) xs)" by (simp split: if_splits)
    qed
    then have "distinct xs" by (rule Cons.IH)
    ultimately show ?case by simp
  qed
qed

lemma filter_const_key:
  "list_all (\<lambda>x. f x = c) xs \<Longrightarrow> filter (\<lambda>x. f x = k) xs = (if k = c then xs else [])"
  by (induction xs) auto

lemma fixed_sections:
  "list_all (\<lambda>p. section_of opts p = 6) (map dest (root_files opts sch))"
  "list_all (\<lambda>p. section_of opts p = 6) (map dest (backend_files opts sch))"
  "list_all (\<lambda>p. section_of opts p = 6) (map dest (graphql_files opts sch))"
  "list_all (\<lambda>p. section_of opts p = 6) (map dest (frontend_files opts sch))"
  "list_all (\<lambda>p. section_of opts p = 6) (map dest (admin_files opts sch))"
  "list_all (\<lambda>p. section_of opts p = 4) (map dest (routes_index opts sch))"
  by (simp_all add: root_files_def backend_files_def graphql_files_def frontend_files_def
      admin_files_def routes_index_def render_def BACK_def FRONT_def path_join_def
      section_of_def root_prefix_def path_section_def)



lemma models_loop_sections:
  "filter (\<lambda>p. section_of opts p = 0) (map dest (models_loop opts sch clock i ents))
     = map (\<lambda>e. BACK opts @ ''/src/models/'' @ name e @ ''.ts'') ents"
  "filter (\<lambda>p. section_of opts p = 1) (map dest (models_loop opts sch clock i ents))
     = map (migration_dest opts clock) (enumerate i ents)"
  "filter (\<lambda>p. section_of opts p = 2) (map dest (models_loop opts sch clock i ents))
     = map (\<lambda>e. BACK opts @ ''/tests/'' @ name e @ ''.test.ts'') ents"
  "2 < k \<Longrightarrow> filter (\<lambda>p. section_of opts p = k) (map dest (models_loop opts sch clock i ents)) = []"
  by (induction ents arbitrary: i;
      simp add: render_def migration_dest_def BACK_root section_of_root path_section_def)+

lemma controllers_loop_sections:
  "filter (\<lambda>p. section_of opts p = 3) (map dest (controllers_loop opts sch ents))
     = map (\<lambda>e. BACK opts @ ''/src/controllers/'' @ name e @ ''Controller.ts'') ents"
  "filter (\<lambda>p. section_of opts p = 4) (map dest (controllers_loop opts sch ents))
     = map (\<lambda>e. BACK opts @ ''/src/routes/'' @ toKebab (name e) @ ''.ts'') ents"
  "k \<noteq> 3 \<Longrightarrow> k \<noteq> 4 \<Longrightarrow>
     filter (\<lambda>p. section_of opts p = k) (map dest (controllers_loop opts sch ents)) = []"
  by (induction ents;
      simp add: render_def Let_def BACK_root section_of_root path_section_def)+

lemma features_section:
  "list_all (\<lambda>p. section_of opts p = 5) (map dest (concat (map (feature_module opts) ents)))"
  by (induction ents)
     (simp_all add: feature_module_def featurePath_def render_def Let_def FRONT_root
        section_of_root path_section_def)


lemma distinct_map_key:
  assumes "\<And>x y. f x = f y \<longleftrightarrow> g x = g y"
  shows "distinct (map f xs) \<longleftrightarrow> distinct (map g xs)"
proof (induction xs)
  case Nil
  show ?case by simp
next
  case (Cons x xs)
  have "f x \<in> f ` set xs \<longleftrightarrow> g x \<in> g ` set xs"
    by (auto simp: image_iff assms)
  with Cons show ?case by simp
qed

lemma distinct_kebab_names:
  "distinct (map (\<lambda>e. toKebab (name e)) ents) \<Longrightarrow> distinct (map name ents)"
  by (induction ents) auto

lemma distinct_model_dests:
  "distinct (map (\<lambda>e. BACK opts @ ''/src/models/'' @ name e @ ''.ts'') ents)
     \<longleftrightarrow> distinct (map name ents)"
  by (rule distinct_map_key) simp

lemma distinct_test_dests:
  "distinct (map (\<lambda>e. BACK opts @ ''/tests/'' @ name e @ ''.test.ts'') ents)
     \<longleftrightarrow> distinct (map name ents)"
  by (rule distinct_map_key) simp

lemma distinct_controller_dests:
  "distinct (map (\<lambda>e. BACK opts @ ''/src/controllers/'' @ name e @ ''Controller.ts'') ents)
     \<longleftrightarrow> distinct (map name ents)"
  by (rule distinct_map_key) simp

lemma distinct_route_dests:
  "distinct (map (\<lambda>e. BACK opts @ ''/src/routes/'' @ toKebab (name e) @ ''.ts'') ents)
     \<longleftrightarrow> distinct (map (\<lambda>e. toKebab (name e)) ents)"
  by (rule distinct_map_key) simp

lemma index_route:
  "BACK opts @ ''/src/routes/index.ts''
     \<in> set (map (\<lambda>e. BACK opts @ ''/src/routes/'' @ toKebab (name e) @ ''.ts'') ents)
   \<longleftrightarrow> ''index'' \<in> set (map (\<lambda>e. toKebab (name e)) ents)"
proof -
  have lit: "''index.ts'' = ''index'' @ ''.ts''" by simp
  have "\<And>k. (''index.ts'' = k @ ''.ts'') = (''index'' = k)"
    by (simp only: lit append_same_eq)
  then have "\<And>k. (BACK opts @ ''/src/routes/index.ts'' = BACK opts @ ''/src/routes/'' @ k @ ''.ts'')
               = (''index'' = k)"
    by simp
  then show ?thesis by (simp add: image_iff)
qed

lemma show_nat_inj: "show_nat a @ CHR ''-'' # r = show_nat b @ CHR ''-'' # r' \<Longrightarrow> a = b \<and> r = r'"
proof -
  assume eq: "show_nat a @ CHR ''-'' # r = show_nat b @ CHR ''-'' # r'"
  then have "takeWhile is_digit (show_nat a @ CHR ''-'' # r)
               = takeWhile is_digit (show_nat b @ CHR ''-'' # r')" by simp
  then have s: "show_nat a = show_nat b"
    by (simp only: takeWhile_digits [OF hyphen_not_digit])
  then have "read_nat (show_nat a) = read_nat (show_nat b)" by simp
  then have "a = b" by (simp only: read_show_nat)
  with eq show ?thesis by simp
qed

lemma migration_dest_eq:
  "migration_dest opts clock x = migration_dest opts clock y
     \<longleftrightarrow> (clock (fst x), tableName (snd x)) = (clock (fst y), tableName (snd y))"
proof
  assume "migration_dest opts clock x = migration_dest opts clock y"
  then have "show_nat (clock (fst x)) @ CHR ''-'' # (''create-'' @ tableName (snd x) @ ''.ts'')
             = show_nat (clock (fst y)) @ CHR ''-'' # (''create-'' @ tableName (snd y) @ ''.ts'')"
    by (simp add: migration_dest_def)
  from show_nat_inj [OF this]
  show "(clock (fst x), tableName (snd x)) = (clock (fst y), tableName (snd y))" by simp
next
  assume "(clock (fst x), tableName (snd x)) = (clock (fst y), tableName (snd y))"
  then show "migration_dest opts clock x = migration_dest opts clock y"
    by (simp add: migration_dest_def)
qed

lemma distinct_migration_dests:
  "distinct (map (migration_dest opts clock) xs)
     \<longleftrightarrow> distinct (map (\<lambda>ie. (clock (fst ie), tableName (snd ie))) xs)"
  by (rule distinct_map_key) (rule migration_dest_eq)


lemma doubled_eq: "k @ CHR ''/'' # k = k' @ CHR ''/'' # k' \<Longrightarrow> k = k'"
proof -
  assume eq: "k @ CHR ''/'' # k = k' @ CHR ''/'' # k'"
  then have "length (k @ CHR ''/'' # k) = length (k' @ CHR ''/'' # k')" by simp
  then have "length k = length k'" by simp
  with eq show ?thesis by simp
qed

lemma suffix_clash:
  assumes "s1 \<in> set [''.module.ts'', ''.service.ts'', ''-list.component.html'',
                       ''-list.component.ts'', ''-form.component.html'', ''-form.component.ts'']"
      and "s2 \<in> set [''.module.ts'', ''.service.ts'', ''-list.component.html'',
                       ''-list.component.ts'', ''-form.component.html'', ''-form.component.ts'']"
      and "x @ s1 = y @ s2"
  shows "s1 = s2"
proof -
  from assms(3) have "rev s1 @ rev x = rev s2 @ rev y"
    by (metis rev_append)
  with assms(1,2) show ?thesis by auto
qed


lemma feature_dests:
  "map dest (feature_module opts e) =
     map (\<lambda>s. FRONT opts @ ''/src/app/features/'' @ (toKebab (name e) @ CHR ''/'' # toKebab (name e)) @ s)
       [''.module.ts'', ''.service.ts'', ''-list.component.html'',
        ''-list.component.ts'', ''-form.component.html'', ''-form.component.ts'']"
  by (simp add: feature_module_def featurePath_def render_def Let_def)

lemma feature_dest_kebab:
  assumes "p \<in> set (map dest (feature_module opts e))"
      and "p \<in> set (map dest (feature_module opts e'))"
  shows "toKebab (name e) = toKebab (name e')"
proof -
  let ?S = "[''.module.ts'', ''.service.ts'', ''-list.component.html'',
             ''-list.component.ts'', ''-form.component.html'', ''-form.component.ts'']"
  let ?k = "toKebab (name e)" and ?k' = "toKebab (name e')"
  from assms(1) obtain s1 where s1: "s1 \<in> set ?S"
    and p1: "p = FRONT opts @ ''/src/app/features/'' @ (?k @ CHR ''/'' # ?k) @ s1"
    unfolding feature_dests by (auto simp only: set_map image_iff)
  from assms(2) obtain s2 where s2: "s2 \<in> set ?S"
    and p2: "p = FRONT opts @ ''/src/app/features/'' @ (?k' @ CHR ''/'' # ?k') @ s2"
    unfolding feature_dests by (auto simp only: set_map image_iff)
  from p1 p2 have eq: "(?k @ CHR ''/'' # ?k) @ s1 = (?k' @ CHR ''/'' # ?k') @ s2"
    by (simp only: same_append_eq)
  from suffix_clash [OF s1 s2 eq] have "s1 = s2" .
  with eq have "?k @ CHR ''/'' # ?k = ?k' @ CHR ''/'' # ?k'" by (simp only: append_same_eq)
  then show ?thesis by (rule doubled_eq)
qed

lemma feature_module_distinct: "distinct (map dest (feature_module opts e))"
  by (simp add: feature_dests distinct_map inj_on_def)

lemma distinct_feature_dests:
  "distinct (map (\<lambda>e. toKebab (name e)) ents)
   \<Longrightarrow> distinct (map dest (concat (map (feature_module opts) ents)))"
proof (induction ents)
  case Nil
  show ?case by simp
next
  case (Cons e ents)
  from Cons.prems have new: "toKebab (name e) \<notin> (\<lambda>e. toKebab (name e)) ` set ents"
    and rest: "distinct (map (\<lambda>e. toKebab (name e)) ents)" by simp_all
  have "set (map dest (feature_module opts e))
          \<inter> set (map dest (concat (map (feature_module opts) ents))) = {}"
  proof (rule ccontr)
    assume "set (map dest (feature_module opts e))
              \<inter> set (map dest (concat (map (feature_module opts) ents))) \<noteq> {}"
    then obtain p where a: "p \<in> set (map dest (feature_module opts e))"
      and b: "p \<in> set (map dest (concat (map (feature_module opts) ents)))" by blast
    from b obtain e' where e': "e' \<in> set ents"
      and c: "p \<in> set (map dest (feature_module opts e'))" by auto
    from feature_dest_kebab [OF a c] e' new show False by (auto simp: image_iff)
  qed
  with Cons.IH [OF rest] feature_module_distinct [of opts e]
  show ?case by (simp only: list.map concat.simps map_append distinct_append simp_thms)
qed



lemma gated_subset:
  "set (concat (map (\<lambda>gb. if fst gb then snd gb else []) gbs)) \<subseteq> set (concat (map snd gbs))"
  by (induction gbs) auto

lemma gated_distinct:
  "distinct (concat (map snd gbs))
   \<Longrightarrow> distinct (concat (map (\<lambda>gb. if fst gb then snd gb else []) gbs))"
proof (induction gbs)
  case Nil
  show ?case by simp
next
  case (Cons gb gbs)
  from Cons.prems have d1: "distinct (snd gb)" and d2: "distinct (concat (map snd gbs))"
    and d3: "set (snd gb) \<inter> set (concat (map snd gbs)) = {}" by simp_all
  from d3 gated_subset [of gbs]
  have "set (snd gb) \<inter> set (concat (map (\<lambda>gb. if fst gb then snd gb else []) gbs)) = {}"
    by blast
  with d1 Cons.IH [OF d2] show ?case by simp
qed

lemma fixed_files_distinct: "distinct (map dest (fixed_files opts sch))"
proof -
  define sl where "sl = (if outDir opts = ''/'' then ''/'' else [])"
  define pre where "pre = root_prefix opts"
  let ?gbs =
    "[(truthy (r_docker (resolve opts sch)),
       [pre @ ''/backend/Dockerfile'', pre @ ''/frontend/Dockerfile'',
        pre @ sl @ ''/docker-compose.yml'']),
      (truthy (r_ci (resolve opts sch)), [pre @ sl @ ''/.github/workflows/ci.yml'']),
      (truthy (r_terraform (resolve opts sch)),
       [pre @ sl @ ''/terraform/main.tf'', pre @ sl @ ''/terraform/variables.tf'',
        pre @ sl @ ''/terraform/outputs.tf'', pre @ sl @ ''/terraform/terraform.tfvars.example'']),
      (True,
       [pre @ ''/backend/package.json'', pre @ ''/backend/tsconfig.json'',
        pre @ ''/backend/.env.example'', pre @ ''/backend/src/server.ts'',
        pre @ ''/backend/src/config/database.ts'', pre @ ''/backend/src/middleware/auth.ts'',
        pre @ ''/backend/src/middleware/upload.ts'', pre @ ''/backend/src/middleware/error.ts'']),
      (enableGraphQL opts,
       [pre @ ''/backend/src/graphql/typeDefs.ts'', pre @ ''/backend/src/graphql/resolvers.ts'']),
      (True,
       [pre @ ''/frontend/package.json'', pre @ ''/frontend/angular.json'',
        pre @ ''/frontend/tsconfig.json'', pre @ ''/frontend/src/index.html'',
        pre @ ''/frontend/src/main.ts'', pre @ ''/frontend/src/polyfills.ts'',
        pre @ ''/frontend/src/styles.scss'', pre @ ''/frontend/src/app/app.module.ts'',
        pre @ ''/frontend/src/app/app-routing.module.ts'',
        pre @ ''/frontend/src/app/app.component.html'',
        pre @ ''/frontend/src/app/app.component.ts'',
        pre @ ''/frontend/src/app/core/auth/auth.service.ts'',
        pre @ ''/frontend/src/app/core/auth/jwt.interceptor.ts'',
        pre @ ''/frontend/src/app/core/auth/auth.guard.ts'']),
      (enableAdmin opts,
       [pre @ ''/frontend/src/app/@theme/@theme.module.ts'',
        pre @ ''/frontend/src/app/@theme/styles/themes.scss'',
        pre @ ''/frontend/src/app/pages/pages.module.ts'',
        pre @ ''/frontend/src/app/pages/dashboard/dashboard.component.html'',
        pre @ ''/frontend/src/app/pages/dashboard/dashboard.component.ts''])]"
  have sl: "sl = [] \<or> sl = ''/''" by (simp add: sl_def)
  have od: "outDir opts = pre @ sl" by (simp add: sl_def pre_def root_prefix_def)
  have bf: "BACK opts = pre @ ''/backend''" "FRONT opts = pre @ ''/frontend''"
    by (simp_all add: pre_def BACK_root FRONT_root)
  have "map dest (fixed_files opts sch)
          = concat (map (\<lambda>gb. if fst gb then snd gb else []) ?gbs)"
    by (simp add: fixed_files_def root_files_def backend_files_def graphql_files_def
        frontend_files_def admin_files_def render_def bf od)
  moreover have "distinct (concat (map snd ?gbs))"
    using sl by auto
  ultimately show ?thesis by (simp only: gated_distinct)
qed

lemma all_sections:
  "(\<forall>k::nat. P k) \<longleftrightarrow> P 0 \<and> P 1 \<and> P 2 \<and> P 3 \<and> P 4 \<and> P 5 \<and> P 6 \<and> (\<forall>k. 6 < k \<longrightarrow> P k)"
proof
  assume "\<forall>k. P k"
  then show "P 0 \<and> P 1 \<and> P 2 \<and> P 3 \<and> P 4 \<and> P 5 \<and> P 6 \<and> (\<forall>k. 6 < k \<longrightarrow> P k)" by simp
next
  assume a: "P 0 \<and> P 1 \<and> P 2 \<and> P 3 \<and> P 4 \<and> P 5 \<and> P 6 \<and> (\<forall>k. 6 < k \<longrightarrow> P k)"
  show "\<forall>k. P k"
  proof
    fix k :: nat
    have "k = 0 \<or> k = 1 \<or> k = 2 \<or> k = 3 \<or> k = 4 \<or> k = 5 \<or> k = 6 \<or> 6 < k" by arith
    with a show "P k" by blast
  qed
qed

lemma routes_index_dest:
  "map dest (routes_index opts sch) = [BACK opts @ ''/src/routes/index.ts'']"
  by (simp add: routes_index_def render_def)

lemma index_section: "section_of opts (BACK opts @ ''/src/routes/index.ts'') = 4"
  by (simp add: BACK_root section_of_root path_section_def)

lemma distinct_snoc: "distinct (xs @ [x]) \<longleftrightarrow> distinct xs \<and> x \<notin> set xs"
  by auto

lemmas fixed_filters =
  fixed_sections [THEN filter_const_key] features_section [THEN filter_const_key]

lemma plan_section_filters:
  "filter (\<lambda>p. section_of opts p = 0) (map dest (plan opts sch clock))
     = map (\<lambda>e. BACK opts @ ''/src/models/'' @ name e @ ''.ts'') (entities_of sch)"
  "filter (\<lambda>p. section_of opts p = 1) (map dest (plan opts sch clock))
     = map (migration_dest opts clock) (enumerate 0 (entities_of sch))"
  "filter (\<lambda>p. section_of opts p = 2) (map dest (plan opts sch clock))
     = map (\<lambda>e. BACK opts @ ''/tests/'' @ name e @ ''.test.ts'') (entities_of sch)"
  "filter (\<lambda>p. section_of opts p = 3) (map dest (plan opts sch clock))
     = map (\<lambda>e. BACK opts @ ''/src/controllers/'' @ name e @ ''Controller.ts'') (entities_of sch)"
  "filter (\<lambda>p. section_of opts p = 4) (map dest (plan opts sch clock))
     = map (\<lambda>e. BACK opts @ ''/src/routes/'' @ toKebab (name e) @ ''.ts'') (entities_of sch)
       @ [BACK opts @ ''/src/routes/index.ts'']"
  "filter (\<lambda>p. section_of opts p = 5) (map dest (plan opts sch clock))
     = map dest (concat (map (feature_module opts) (entities_of sch)))"
  "filter (\<lambda>p. section_of opts p = 6) (map dest (plan opts sch clock))
     = map dest (fixed_files opts sch)"
  "6 < k \<Longrightarrow> filter (\<lambda>p. section_of opts p = k) (map dest (plan opts sch clock)) = []"
  by (simp_all add: plan_sections fixed_files_def fixed_filters models_loop_sections
      models_loop_sections(2) [unfolded One_nat_def]
      controllers_loop_sections routes_index_dest index_section del: map_concat)

lemma toKebab_examples: "toKebab ''index'' = ''index''" "toKebab ''Post'' = ''-post''"
  by code_simp+

text \<open>
  Claim C7, as stated: no two entries of a plan share a destination path, whatever the
  schema. For an entity called \<open>index\<close> the route file and the route index are both
  \<open>BACK/src/routes/index.ts\<close>.
\<close>

theorem index_route_counterexample:
  "\<not> distinct (map dest (plan blog_options index_schema same_millisecond))"
proof
  assume "distinct (map dest (plan blog_options index_schema same_millisecond))"
  then have "distinct (filter (\<lambda>p. section_of blog_options p = 4)
                (map dest (plan blog_options index_schema same_millisecond)))"
    by (rule distinct_filter)
  then have "distinct (map (\<lambda>e. BACK blog_options @ ''/src/routes/'' @ toKebab (name e) @ ''.ts'')
                         (entities_of index_schema)
                       @ [BACK blog_options @ ''/src/routes/index.ts''])"
    by (simp only: plan_section_filters)
  then show False
    by (simp add: index_schema_def blog_schema_def entities_of_def default_to_def toKebab_examples)
qed

text \<open>
  Claim C7, amended: the destination paths of a plan are pairwise different exactly when
  the kebab-case names of the entities are pairwise different, none of them is \<open>index\<close>,
  and no two entities share both the clock reading of their pass and their table name.
\<close>

theorem dest_unique:
  "distinct (map dest (plan opts sch clock)) \<longleftrightarrow>
     distinct (map (\<lambda>e. toKebab (name e)) (entities_of sch))
     \<and> ''index'' \<notin> set (map (\<lambda>e. toKebab (name e)) (entities_of sch))
     \<and> distinct (map (\<lambda>ie. (clock (fst ie), tableName (snd ie)))
                   (enumerate 0 (entities_of sch)))"
  (is "?lhs \<longleftrightarrow> ?kebabs \<and> ?index \<and> ?stamps")
proof -
  let ?ents = "entities_of sch"
  let ?L = "map dest (plan opts sch clock)"
  let ?D = "\<lambda>k. distinct (filter (\<lambda>p. section_of opts p = k) ?L)"
  let ?names = "distinct (map name ?ents)"
  let ?features = "distinct (map dest (concat (map (feature_module opts) ?ents)))"
  have k0: "?D 0 \<longleftrightarrow> ?names"
    by (simp only: plan_section_filters distinct_model_dests)
  have k1: "?D 1 \<longleftrightarrow> ?stamps"
    by (simp only: plan_section_filters distinct_migration_dests)
  have k2: "?D 2 \<longleftrightarrow> ?names"
    by (simp only: plan_section_filters distinct_test_dests)
  have k3: "?D 3 \<longleftrightarrow> ?names"
    by (simp only: plan_section_filters distinct_controller_dests)
  have k4: "?D 4 \<longleftrightarrow> ?kebabs \<and> ?index"
    by (simp only: plan_section_filters distinct_snoc distinct_route_dests index_route)
  have k5: "?D 5 \<longleftrightarrow> ?features"
    by (simp only: plan_section_filters)
  have k6: "?D 6 \<longleftrightarrow> True"
    by (simp only: plan_section_filters fixed_files_distinct)
  have k7: "(\<forall>k. 6 < k \<longrightarrow> ?D k) \<longleftrightarrow> True"
    by (simp add: plan_section_filters(8))
  have "?lhs \<longleftrightarrow> (\<forall>k. ?D k)"
    by (rule distinct_by_key)
  also have "\<dots> \<longleftrightarrow> ?D 0 \<and> ?D 1 \<and> ?D 2 \<and> ?D 3 \<and> ?D 4 \<and> ?D 5 \<and> ?D 6 \<and> (\<forall>k. 6 < k \<longrightarrow> ?D k)"
    by (rule all_sections)
  also have "\<dots> \<longleftrightarrow> ?names \<and> ?stamps \<and> (?kebabs \<and> ?index) \<and> ?features"
    by (simp only: k0 k1 k2 k3 k4 k5 k6 k7) blast
  finally have sections: "?lhs \<longleftrightarrow> ?names \<and> ?stamps \<and> (?kebabs \<and> ?index) \<and> ?features" .
  show ?thesis
  proof
    assume ?lhs
    with sections show "?kebabs \<and> ?index \<and> ?stamps" by blast
  next
    assume a: "?kebabs \<and> ?index \<and> ?stamps"
    then have ?names by (blast intro: distinct_kebab_names)
    moreover from a have ?features by (blast intro: distinct_feature_dests)
    ultimately show ?lhs using a sections by blast
  qed
qed

theorem dest_unique_witness:
  "distinct (map (\<lambda>e. toKebab (name e)) (entities_of blog_schema))
   \<and> ''index'' \<notin> set (map (\<lambda>e. toKebab (name e)) (entities_of blog_schema))
   \<and> distinct (map (\<lambda>ie. (same_millisecond (fst ie), tableName (snd ie)))
                 (enumerate 0 (entities_of blog_schema)))
   \<and> distinct (map dest (plan blog_options blog_schema same_millisecond))"
proof -
  have h: "distinct (map (\<lambda>e. toKebab (name e)) (entities_of blog_schema))
     \<and> ''index'' \<notin> set (map (\<lambda>e. toKebab (name e)) (entities_of blog_schema))
     \<and> distinct (map (\<lambda>ie. (same_millisecond (fst ie), tableName (snd ie)))
                   (enumerate 0 (entities_of blog_schema)))"
    by (simp add: blog_schema_def entities_of_def default_to_def toKebab_examples)
  with dest_unique [of blog_options blog_schema same_millisecond] show ?thesis by blast
qed

end
